theory Spec2Isabelle
  imports Main
begin

section \<open>JavaScript strings\<close>

text \<open>
  A JavaScript string is modelled as a list of code units, restricted to the code units
  below 256 (the type \<^typ>\<open>char\<close>): \<open>CHR 0xA0\<close> is the non-breaking space
  and \<open>CHR 0xAD\<close> the soft hyphen. The methods below are the ones the scraper calls.
\<close>

definition is_space :: "char \<Rightarrow> bool" where
  \<comment> \<open>the white space of \<open>String.prototype.trim\<close> and of the regular expressions' \<open>\\s\<close>\<close>
  "is_space c =
     (c = CHR 0x09 \<or> c = CHR 0x0A \<or> c = CHR 0x0B \<or> c = CHR 0x0C \<or> c = CHR 0x0D
      \<or> c = CHR 0x20 \<or> c = CHR 0xA0)"

definition js_trim :: "string \<Rightarrow> string" where
  "js_trim s = rev (dropWhile is_space (rev (dropWhile is_space s)))"

definition lower_char :: "char \<Rightarrow> char" where
  "lower_char c =
     (let n = (of_char c :: nat)
      in if (65 \<le> n \<and> n \<le> 90) \<or> (192 \<le> n \<and> n \<le> 222 \<and> n \<noteq> 215)
         then char_of (n + 32) else c)"

definition js_toLowerCase :: "string \<Rightarrow> string" where
  "js_toLowerCase s = map lower_char s"

fun startsWith :: "string \<Rightarrow> string \<Rightarrow> bool" where
  "startsWith s [] = True"
| "startsWith [] (k # ks) = False"
| "startsWith (c # cs) (k # ks) = (c = k \<and> startsWith cs ks)"

fun js_includes :: "string \<Rightarrow> string \<Rightarrow> bool" where
  "js_includes [] k = (k = [])"
| "js_includes (c # cs) k = (startsWith (c # cs) k \<or> js_includes cs k)"

section \<open>The tag resolver\<close>

text \<open>
  \<open>getTagForQuestion(sectionName, questionNumber)\<close> of \<open>scraper.js\<close>. As its
  documentation comment declares, the section name is a string, or it is missing
  (\<open>None\<close> stands for \<open>null\<close> and \<open>undefined\<close>); the question number is a number
  (an integer here: the caller passes the result of \<open>parseInt\<close> or a counter), or it is
  not of type \<open>number\<close> (\<open>None\<close>). The guard \<open>!sectionName\<close> also holds for the
  empty string. The two nested \<open>if\<close> statements of the source fall through to the
  keyword rules when the label matches and the number is in neither range; the chain
  of conditions below does the same.
\<close>

definition getTagForQuestion :: "string option \<Rightarrow> int option \<Rightarrow> string option" where
  "getTagForQuestion sectionName questionNumber =
     (case sectionName of
        None \<Rightarrow> None
      | Some sn \<Rightarrow>
         (case questionNumber of
            None \<Rightarrow> None
          | Some qn \<Rightarrow>
             if sn = [] then None
             else
               let trimmedSection = js_trim sn in
               if trimmedSection = ''Section I'' \<and> qn \<ge> 1 \<and> qn \<le> 30 then Some ''MATH''
               else if trimmedSection = ''Section I'' \<and> qn \<ge> 31 \<and> qn \<le> 60 then Some ''GI''
               else if trimmedSection = ''Section II'' \<and> qn \<ge> 1 \<and> qn \<le> 45 then Some ''ENG''
               else if trimmedSection = ''Section II'' \<and> qn \<ge> 46 \<and> qn \<le> 70 then Some ''GK''
               else
                 let lowerCaseSection = js_toLowerCase trimmedSection in
                 if js_includes lowerCaseSection ''quantitative''
                    \<or> js_includes lowerCaseSection ''quants'' then Some ''MATH''
                 else if js_includes lowerCaseSection ''intelligence''
                    \<or> js_includes lowerCaseSection ''reasoning'' then Some ''GI''
                 else if js_includes lowerCaseSection ''english'' then Some ''ENG''
                 else if js_includes lowerCaseSection ''awareness''
                    \<or> js_includes lowerCaseSection ''knowledge'' then Some ''GK''
                 else if js_includes lowerCaseSection ''computer'' then Some ''COMPUTER''
                 else if js_includes lowerCaseSection ''bengali'' then Some ''BENGALI''
                 else None))"

text \<open>The same function in the second variant of the scraper (the one with simulated mouse input).\<close>

definition getTagForQuestion_v2 :: "string option \<Rightarrow> int option \<Rightarrow> string option" where
  "getTagForQuestion_v2 sectionName questionNumber =
     (case sectionName of
        None \<Rightarrow> None
      | Some sn \<Rightarrow>
         (case questionNumber of
            None \<Rightarrow> None
          | Some qn \<Rightarrow>
             if sn = [] then None
             else
               let s = js_trim sn in
               if s = ''Section I'' \<and> qn \<ge> 1 \<and> qn \<le> 30 then Some ''MATH''
               else if s = ''Section I'' \<and> qn \<ge> 31 \<and> qn \<le> 60 then Some ''GI''
               else if s = ''Section II'' \<and> qn \<ge> 1 \<and> qn \<le> 45 then Some ''ENG''
               else if s = ''Section II'' \<and> qn \<ge> 46 \<and> qn \<le> 70 then Some ''GK''
               else
                 let lc = js_toLowerCase s in
                 if js_includes lc ''quantitative'' \<or> js_includes lc ''quants'' then Some ''MATH''
                 else if js_includes lc ''intelligence'' \<or> js_includes lc ''reasoning'' then Some ''GI''
                 else if js_includes lc ''english'' then Some ''ENG''
                 else if js_includes lc ''awareness'' \<or> js_includes lc ''knowledge'' then Some ''GK''
                 else if js_includes lc ''computer'' then Some ''COMPUTER''
                 else if js_includes lc ''bengali'' then Some ''BENGALI''
                 else None))"

text \<open>
  The resolver as the specification words it: two reserved labels with their number
  ranges, then an ordered list of keyword rules of which the first match wins.
\<close>

definition reserved_tag :: "string \<Rightarrow> int \<Rightarrow> string option" where
  "reserved_tag label n =
     (if label = ''Section I'' \<and> 1 \<le> n \<and> n \<le> 30 then Some ''MATH''
      else if label = ''Section I'' \<and> 31 \<le> n \<and> n \<le> 60 then Some ''GI''
      else if label = ''Section II'' \<and> 1 \<le> n \<and> n \<le> 45 then Some ''ENG''
      else if label = ''Section II'' \<and> 46 \<le> n \<and> n \<le> 70 then Some ''GK''
      else None)"

definition keyword_rules :: "(string list \<times> string) list" where
  "keyword_rules =
     [([''quantitative'', ''quants''], ''MATH''),
      ([''intelligence'', ''reasoning''], ''GI''),
      ([''english''], ''ENG''),
      ([''awareness'', ''knowledge''], ''GK''),
      ([''computer''], ''COMPUTER''),
      ([''bengali''], ''BENGALI'')]"

fun first_rule :: "(string list \<times> string) list \<Rightarrow> string \<Rightarrow> string option" where
  "first_rule [] s = None"
| "first_rule ((keys, tag) # rules) s =
     (if list_ex (js_includes (js_toLowerCase s)) keys then Some tag else first_rule rules s)"

section \<open>The document tree and the external libraries\<close>

text \<open>
  The scraper reads and rewrites HTML through the library cheerio and minifies it with
  html-minifier-terser. Neither is code of this repository, so parsing, serialising and
  minifying are parameters of the model: \<open>loadDocument\<close> is \<open>cheerio.load(html)\<close>,
  \<open>loadFragment\<close> is \<open>cheerio.load(html, options, false)\<close> and the parsing of an
  HTML string handed to \<open>replaceWith\<close>, \<open>toHtml\<close> is \<open>$.html()\<close> and the \<open>.html()\<close>
  of an element's children, and \<open>minify\<close> returns \<open>None\<close> when the minifier throws.
  The tree in between is modelled: elements (tag name, attributes, children), text and
  comments.

  \<open>BrokenLink\<close> is not a node. It marks a place in a list of siblings where the
  \<open>prev\<close> and \<open>next\<close> properties of the neighbours are \<open>undefined\<close>: cheerio leaves
  them so when \<open>replaceWith\<close> puts nothing in the place of an element (it assigns the
  first and the last of the new nodes to the neighbours, and there are none). The
  children of an element and what is serialised are not affected; \<open>prev()\<close> and
  \<open>next()\<close>, which follow these properties, throw a \<open>TypeError\<close> when they come upon
  \<open>undefined\<close>.
\<close>

datatype node =
    Element string "(string \<times> string) list" "node list"
  | Text string
  | Comment string
  | BrokenLink

datatype js_error = TypeError

record libs =
  loadDocument :: "string \<Rightarrow> node list"
  loadFragment :: "string \<Rightarrow> node list"
  toHtml :: "node list \<Rightarrow> string"
  minify :: "string \<Rightarrow> string option"

fun is_element :: "node \<Rightarrow> bool" where
  "is_element (Element t a cs) = True"
| "is_element n = False"

fun is_broken :: "node \<Rightarrow> bool" where
  "is_broken BrokenLink = True"
| "is_broken n = False"

fun children :: "node \<Rightarrow> node list" where
  "children (Element t a cs) = cs"
| "children n = []"

fun has_tag :: "string \<Rightarrow> node \<Rightarrow> bool" where
  "has_tag name (Element t a cs) = (t = name)"
| "has_tag name n = False"

fun attr :: "string \<Rightarrow> node \<Rightarrow> string option" where
  "attr name (Element t a cs) = map_of a name"
| "attr name n = None"

fun js_words :: "string \<Rightarrow> string list" where
  "js_words [] = [[]]"
| "js_words (c # cs) =
     (if is_space c then [] # js_words cs
      else (case js_words cs of
              [] \<Rightarrow> [[c]]
            | w # ws \<Rightarrow> (c # w) # ws))"

definition has_class :: "string \<Rightarrow> node \<Rightarrow> bool" where
  \<comment> \<open>the class selector \<open>.name\<close>\<close>
  "has_class name n =
     (case attr ''class'' n of
        None \<Rightarrow> False
      | Some v \<Rightarrow> name \<noteq> [] \<and> List.member (js_words v) name)"

text \<open>
  The nodes of a tree, without the marks of broken links: what the libraries hand out
  and what they are given.
\<close>

fun plain_node :: "node \<Rightarrow> node list"
  and plain :: "node list \<Rightarrow> node list" where
  "plain_node (Element t a cs) = [Element t a (plain cs)]"
| "plain_node (Text s) = [Text s]"
| "plain_node (Comment s) = [Comment s]"
| "plain_node BrokenLink = []"
| "plain [] = []"
| "plain (n # ns) = plain_node n @ plain ns"

definition parseDocument :: "libs \<Rightarrow> string \<Rightarrow> node list" where
  "parseDocument L html = plain (loadDocument L html)"

definition parseFragment :: "libs \<Rightarrow> string \<Rightarrow> node list" where
  "parseFragment L html = plain (loadFragment L html)"

definition innerHtml :: "libs \<Rightarrow> node \<Rightarrow> string" where
  \<comment> \<open>\<open>$(el).html()\<close>\<close>
  "innerHtml L el = toHtml L (plain (children el))"

text \<open>\<open>.text()\<close>: the text nodes below the given nodes, in document order.\<close>

fun text_of_node :: "node \<Rightarrow> string"
  and text_of :: "node list \<Rightarrow> string" where
  "text_of_node (Element t a cs) = text_of cs"
| "text_of_node (Text s) = s"
| "text_of_node (Comment s) = []"
| "text_of_node BrokenLink = []"
| "text_of [] = []"
| "text_of (n # ns) = text_of_node n @ text_of ns"

text \<open>\<open>$(selector).removeAttr(name)\<close>: on every element the selector matches.\<close>

fun removeAttr_node :: "(node \<Rightarrow> bool) \<Rightarrow> string \<Rightarrow> node \<Rightarrow> node"
  and removeAttr :: "(node \<Rightarrow> bool) \<Rightarrow> string \<Rightarrow> node list \<Rightarrow> node list" where
  "removeAttr_node sel name (Element t a cs) =
     (if sel (Element t a cs)
      then Element t (filter (\<lambda>kv. fst kv \<noteq> name) a) (removeAttr sel name cs)
      else Element t a (removeAttr sel name cs))"
| "removeAttr_node sel name (Text s) = Text s"
| "removeAttr_node sel name (Comment s) = Comment s"
| "removeAttr_node sel name BrokenLink = BrokenLink"
| "removeAttr sel name [] = []"
| "removeAttr sel name (n # ns) = removeAttr_node sel name n # removeAttr sel name ns"

text \<open>
  \<open>$(selector).remove()\<close>: every matching element goes, with its subtree. Removing an
  element hands its own \<open>prev\<close> and \<open>next\<close> on to its neighbours, so a broken link
  on either side of it stays where it is.
\<close>

fun remove_node :: "(node \<Rightarrow> bool) \<Rightarrow> node \<Rightarrow> node list"
  and remove_all :: "(node \<Rightarrow> bool) \<Rightarrow> node list \<Rightarrow> node list" where
  "remove_node sel (Element t a cs) =
     (if sel (Element t a cs) then [] else [Element t a (remove_all sel cs)])"
| "remove_node sel (Text s) = [Text s]"
| "remove_node sel (Comment s) = [Comment s]"
| "remove_node sel BrokenLink = [BrokenLink]"
| "remove_all sel [] = []"
| "remove_all sel (n # ns) = remove_node sel n @ remove_all sel ns"

text \<open>
  \<open>$(selector).each((_, el) => ...)\<close> with a callback that may call
  \<open>$(el).replaceWith(...)\<close> or \<open>$(el).remove()\<close>. The selection is taken once, in
  document order, before the first callback runs. The callback \<open>f\<close> says what it does
  to an element: it leaves it alone (also when the selector does not match), it
  replaces it by the given nodes, or it removes it. An element is visited before its
  descendants; once it has been replaced or removed, its old subtree is detached from
  the document, so what the later callbacks do to the selected elements inside that
  subtree never reaches the document, and the nodes put in its place are new and not
  part of the selection.

  \<open>replaceWith\<close> with at least one new node sets the links between the new nodes and
  the neighbours afresh, which mends a broken link on either side; with no new node it
  breaks the link between the neighbours.

  A list of siblings is gone through from the left; \<open>done\<close> holds what has been put
  out so far, the last first.
\<close>

datatype edit = Keep | ReplaceWith "node list" | Remove

lemma size_dropWhile_le: "size_list size (dropWhile P ns) \<le> Suc (k + size_list size ns)"
  by (induction ns) auto

function each_siblings :: "(node \<Rightarrow> edit) \<Rightarrow> node list \<Rightarrow> node list \<Rightarrow> node list" where
  "each_siblings f done [] = rev done"
| "each_siblings f done (Element t a cs # ns) =
     (case f (Element t a cs) of
        Keep \<Rightarrow> each_siblings f (Element t a (each_siblings f [] cs) # done) ns
      | ReplaceWith new \<Rightarrow>
          if new = [] then each_siblings f (BrokenLink # done) ns
          else each_siblings f (rev new @ dropWhile is_broken done) (dropWhile is_broken ns)
      | Remove \<Rightarrow> each_siblings f done ns)"
| "each_siblings f done (Text s # ns) = each_siblings f (Text s # done) ns"
| "each_siblings f done (Comment s # ns) = each_siblings f (Comment s # done) ns"
| "each_siblings f done (BrokenLink # ns) = each_siblings f (BrokenLink # done) ns"
  by pat_completeness auto
termination
  by (relation "measure (\<lambda>(f, done, ns). size_list size ns)")
     (auto simp: less_Suc_eq_le size_dropWhile_le)

definition each_replace :: "(node \<Rightarrow> edit) \<Rightarrow> node list \<Rightarrow> node list" where
  "each_replace f doc = each_siblings f [] doc"

section \<open>Regular-expression replacement on strings\<close>

text \<open>
  \<open>s.replace(/re/g, rep)\<close>: the string is scanned from the left; at each position the
  matcher gives the length of the match that starts there, if there is one; a match is
  replaced by \<open>rep\<close> and the scan goes on behind it. The flag tells the matcher
  whether the position is the start of the string (for \<open>^\<close>). None of the
  expressions of the sanitizer matches the empty string.
\<close>

fun replace_scan :: "(bool \<Rightarrow> string \<Rightarrow> nat option) \<Rightarrow> string \<Rightarrow> bool \<Rightarrow> nat \<Rightarrow> string \<Rightarrow> string" where
  "replace_scan m rep at_start skip [] = []"
| "replace_scan m rep at_start (Suc k) (c # cs) = replace_scan m rep False k cs"
| "replace_scan m rep at_start 0 (c # cs) =
     (case m at_start (c # cs) of
        Some (Suc n) \<Rightarrow> rep @ replace_scan m rep False n cs
      | _ \<Rightarrow> c # replace_scan m rep False 0 cs)"

definition js_replace_all :: "(bool \<Rightarrow> string \<Rightarrow> nat option) \<Rightarrow> string \<Rightarrow> string \<Rightarrow> string" where
  "js_replace_all m rep s = replace_scan m rep True 0 s"

fun index_of :: "string \<Rightarrow> string \<Rightarrow> nat option" where
  "index_of pat [] = (if pat = [] then Some 0 else None)"
| "index_of pat (c # cs) =
     (if startsWith (c # cs) pat then Some 0 else map_option Suc (index_of pat cs))"

definition match_literal :: "string \<Rightarrow> bool \<Rightarrow> string \<Rightarrow> nat option" where
  "match_literal pat at_start s = (if startsWith s pat then Some (length pat) else None)"

definition match_comment :: "bool \<Rightarrow> string \<Rightarrow> nat option" where
  \<comment> \<open>\<open><!--[\\s\\S]*?-->\<close>: up to the first \<open>-->\<close> behind the opening\<close>
  "match_comment at_start s =
     (if startsWith s ''<!--''
      then map_option (\<lambda>i. 4 + i + 3) (index_of ''-->'' (drop 4 s))
      else None)"

fun match_br :: "string \<Rightarrow> nat option" where
  \<comment> \<open>\<open><br\\s*\\/?>\<close> with the flag \<open>i\<close>\<close>
  "match_br (c1 # c2 # c3 # rest) =
     (if c1 = CHR ''<'' \<and> (c2 = CHR ''b'' \<or> c2 = CHR ''B'') \<and> (c3 = CHR ''r'' \<or> c3 = CHR ''R'')
      then
        (let n1 = length (takeWhile is_space rest);
             rest1 = drop n1 rest;
             n2 = (if startsWith rest1 ''/'' then 1 else 0);
             rest2 = drop n2 rest1
         in if startsWith rest2 ''>'' then Some (3 + n1 + n2 + 1) else None)
      else None)"
| "match_br s = None"

definition match_br_unit :: "string \<Rightarrow> nat option" where
  \<comment> \<open>\<open><br\\s*\\/?>\\s*\<close>\<close>
  "match_br_unit s =
     (case match_br s of
        None \<Rightarrow> None
      | Some n \<Rightarrow> Some (n + length (takeWhile is_space (drop n s))))"

definition match_lead_unit :: "string \<Rightarrow> nat option" where
  \<comment> \<open>\<open>\\s*<br\\s*\\/?>\<close>\<close>
  "match_lead_unit s =
     (let n0 = length (takeWhile is_space s)
      in map_option (\<lambda>n. n0 + n) (match_br (drop n0 s)))"

lemma match_br_pos: "match_br s = Some n \<Longrightarrow> 0 < n \<and> s \<noteq> []"
  by (induction s rule: match_br.induct)
     (auto simp: Let_def split: if_splits)

lemma match_br_unit_pos: "match_br_unit s = Some n \<Longrightarrow> 0 < n \<and> s \<noteq> []"
  by (auto simp: match_br_unit_def split: option.splits dest: match_br_pos)

lemma match_lead_unit_pos: "match_lead_unit s = Some n \<Longrightarrow> 0 < n \<and> s \<noteq> []"
  by (auto simp: match_lead_unit_def Let_def dest!: match_br_pos)

text \<open>The greedy repetitions: the number of units matched and their total length.\<close>

function br_units :: "string \<Rightarrow> nat \<times> nat" where
  "br_units s =
     (case match_br_unit s of
        None \<Rightarrow> (0, 0)
      | Some n \<Rightarrow> (let (k, l) = br_units (drop n s) in (Suc k, n + l)))"
  by pat_completeness auto
termination
  by (relation "measure length") (auto dest: match_br_unit_pos)

function lead_units :: "string \<Rightarrow> nat" where
  "lead_units s =
     (case match_lead_unit s of
        None \<Rightarrow> 0
      | Some n \<Rightarrow> n + lead_units (drop n s))"
  by pat_completeness auto
termination
  by (relation "measure length") (auto dest: match_lead_unit_pos)

function trail_units :: "string \<Rightarrow> nat option" where
  "trail_units s =
     (case match_br_unit s of
        None \<Rightarrow> None
      | Some n \<Rightarrow>
          if drop n s = [] then Some n
          else map_option (\<lambda>l. n + l) (trail_units (drop n s)))"
  by pat_completeness auto
termination
  by (relation "measure length") (auto dest: match_br_unit_pos)

definition match_three_br :: "bool \<Rightarrow> string \<Rightarrow> nat option" where
  \<comment> \<open>\<open>(<br\\s*\\/?>\\s*){3,}\<close>\<close>
  "match_three_br at_start s =
     (let (k, l) = br_units s in if 3 \<le> k then Some l else None)"

definition match_edge_br :: "bool \<Rightarrow> string \<Rightarrow> nat option" where
  \<comment> \<open>\<open>^(\\s*<br\\s*\\/?>)+|(<br\\s*\\/?>\\s*)+$\<close>: the left alternative first\<close>
  "match_edge_br at_start s =
     (if at_start \<and> 0 < lead_units s then Some (lead_units s) else trail_units s)"

section \<open>The HTML sanitizer\<close>

text \<open>The callbacks of the \<open>each\<close> loops of \<open>transformAndSanitizeHtml\<close>.\<close>

definition unwrap :: "libs \<Rightarrow> (node \<Rightarrow> bool) \<Rightarrow> node \<Rightarrow> edit" where
  \<comment> \<open>\<open>$(el).replaceWith($(el).html())\<close> on the elements the selector matches\<close>
  "unwrap L sel el =
     (if sel el then ReplaceWith (parseFragment L (innerHtml L el)) else Keep)"

definition is_digit :: "char \<Rightarrow> bool" where
  "is_digit c = (let n = (of_char c :: nat) in 48 \<le> n \<and> n \<le> 57)"

definition all_digits :: "string \<Rightarrow> bool" where
  \<comment> \<open>\<open>/^\\d+$/.test(s)\<close>\<close>
  "all_digits s = (s \<noteq> [] \<and> list_all is_digit s)"

definition span_to_sup :: "libs \<Rightarrow> node \<Rightarrow> edit" where
  "span_to_sup L el =
     (if has_tag ''span'' el
         \<and> all_digits (js_trim (text_of_node el))
         \<and> length (filter is_element (children el)) = 0
      then ReplaceWith (parseFragment L (''<sup>'' @ innerHtml L el @ ''</sup>''))
      else Keep)"

definition is_math_script :: "node \<Rightarrow> bool" where
  \<comment> \<open>the selector \<open>script[type="math/tex"]\<close>; in HTML the value of \<open>type\<close> is
      compared without regard to case\<close>
  "is_math_script el =
     (has_tag ''script'' el \<and>
      (case attr ''type'' el of
         None \<Rightarrow> False
       | Some v \<Rightarrow> js_toLowerCase v = ''math/tex''))"

definition script_to_latex :: "libs \<Rightarrow> node \<Rightarrow> edit" where
  "script_to_latex L el =
     (if is_math_script el
      then
        (let latex = innerHtml L el
         in if latex \<noteq> [] \<and> js_trim latex \<noteq> []
            then ReplaceWith (parseFragment L
                         ([CHR 0x5C, CHR ''(''] @ js_trim latex @ [CHR 0x5C, CHR '')'']))
            else Keep)
      else Keep)"

definition is_decorative_img :: "node \<Rightarrow> bool" where
  "is_decorative_img el =
     (has_tag ''img'' el \<and>
      (let src = (case attr ''src'' el of Some v \<Rightarrow> v | None \<Rightarrow> [])
       in js_includes src ''lms_creative_elements/key-point-image.png''
          \<or> js_includes src ''lms_creative_elements/additional-information-image.png''))"

definition unwrap_p :: "libs \<Rightarrow> node \<Rightarrow> edit" where
  "unwrap_p L el =
     (if has_tag ''p'' el
      then
        (let inner = innerHtml L el
         in if inner \<noteq> [] \<and> js_trim inner \<noteq> []
            then ReplaceWith (parseFragment L (inner @ ''<br>''))
            else Remove)
      else Keep)"

text \<open>\<open>$('table').find('br').remove()\<close>: the line breaks below a table, at any depth.\<close>

fun remove_br_in_tables_node :: "bool \<Rightarrow> node \<Rightarrow> node list"
  and remove_br_in_tables :: "bool \<Rightarrow> node list \<Rightarrow> node list" where
  "remove_br_in_tables_node inside (Element t a cs) =
     (if inside \<and> t = ''br'' then []
      else [Element t a (remove_br_in_tables (inside \<or> t = ''table'') cs)])"
| "remove_br_in_tables_node inside (Text s) = [Text s]"
| "remove_br_in_tables_node inside (Comment s) = [Comment s]"
| "remove_br_in_tables_node inside BrokenLink = [BrokenLink]"
| "remove_br_in_tables inside [] = []"
| "remove_br_in_tables inside (n # ns) =
     remove_br_in_tables_node inside n @ remove_br_in_tables inside ns"

text \<open>
  The loop over the tables that removes the line breaks next to each. \<open>prev()\<close> and
  \<open>next()\<close> go from sibling to sibling until they come to an element or to the end of
  the list, passing text and comments. Each of the two inner loops goes on from a
  \<open>br\<close> element to the next element (\<open>prev.prev()\<close>, \<open>next.next()\<close>) before it removes
  the \<open>br\<close>, and stops at an element that is not a \<open>br\<close>.

  \<open>walk_breaks\<close>, given the siblings on one side of a table, nearest first, says
  whether this walk comes upon a broken link, where \<open>prev()\<close> or \<open>next()\<close> throws a
  \<open>TypeError\<close>. \<open>tables_break\<close> says whether that happens at a table of the document
  in one of the two directions; the removal of \<open>br\<close> elements at one table does not
  change what the walk from another meets, since a walk passes \<open>br\<close> elements anyway.
\<close>

fun walk_breaks :: "node list \<Rightarrow> bool" where
  "walk_breaks [] = False"
| "walk_breaks (BrokenLink # ns) = True"
| "walk_breaks (Text s # ns) = walk_breaks ns"
| "walk_breaks (Comment s # ns) = walk_breaks ns"
| "walk_breaks (Element t a cs # ns) = (if t = ''br'' then walk_breaks ns else False)"

fun table_walk_breaks :: "node list \<Rightarrow> bool" where
  "table_walk_breaks [] = False"
| "table_walk_breaks (n # ns) =
     ((has_tag ''table'' n \<and> walk_breaks ns) \<or> table_walk_breaks ns)"

definition siblings_break :: "node list \<Rightarrow> bool" where
  "siblings_break ns = (table_walk_breaks (rev ns) \<or> table_walk_breaks ns)"

fun below_breaks_node :: "node \<Rightarrow> bool"
  and below_breaks :: "node list \<Rightarrow> bool" where
  "below_breaks_node (Element t a cs) = (siblings_break cs \<or> below_breaks cs)"
| "below_breaks_node (Text s) = False"
| "below_breaks_node (Comment s) = False"
| "below_breaks_node BrokenLink = False"
| "below_breaks [] = False"
| "below_breaks (n # ns) = (below_breaks_node n \<or> below_breaks ns)"

definition tables_break :: "node list \<Rightarrow> bool" where
  "tables_break doc = (siblings_break doc \<or> below_breaks doc)"

text \<open>
  What the loop does to the document when no walk throws. \<open>drop_br_after\<close> goes
  through one list of siblings from the left and drops every run of \<open>br\<close> elements
  that follows a table; run on the reversed list it drops the runs in front of a
  table.
\<close>

fun drop_br_after :: "bool \<Rightarrow> node list \<Rightarrow> node list" where
  "drop_br_after after [] = []"
| "drop_br_after after (n # ns) =
     (if is_element n then
        (if has_tag ''table'' n then n # drop_br_after True ns
         else if has_tag ''br'' n \<and> after then drop_br_after True ns
         else n # drop_br_after False ns)
      else n # drop_br_after after ns)"

definition trim_br_siblings :: "node list \<Rightarrow> node list" where
  "trim_br_siblings ns = rev (drop_br_after False (rev (drop_br_after False ns)))"

fun on_children_node :: "(node list \<Rightarrow> node list) \<Rightarrow> node \<Rightarrow> node"
  and on_children :: "(node list \<Rightarrow> node list) \<Rightarrow> node list \<Rightarrow> node list" where
  "on_children_node g (Element t a cs) = Element t a (g (on_children g cs))"
| "on_children_node g (Text s) = Text s"
| "on_children_node g (Comment s) = Comment s"
| "on_children_node g BrokenLink = BrokenLink"
| "on_children g [] = []"
| "on_children g (n # ns) = on_children_node g n # on_children g ns"

definition trim_br_around_tables :: "node list \<Rightarrow> node list" where
  "trim_br_around_tables doc = trim_br_siblings (on_children trim_br_siblings doc)"

text \<open>
  The tree manipulations of \<open>transformAndSanitizeHtml\<close>, in the order of the source.
  The result is the document, or the \<open>TypeError\<close> that the loop over the tables throws.
\<close>

definition domPasses :: "libs \<Rightarrow> string \<Rightarrow> js_error + node list" where
  "domPasses L htmlString =
     (let d0 = parseFragment L htmlString;
          d1 = removeAttr is_element ''style'' d0;
          d2 = each_replace (unwrap L (has_tag ''font'')) d1;
          d3 = each_replace
                 (unwrap L (\<lambda>el. has_tag ''span'' el \<and> has_class ''math-tex'' el)) d2;
          d4 = remove_all
                 (\<lambda>el. has_tag ''o:p'' el \<or> (has_tag ''span'' el \<and> has_class ''ng-binding'' el))
                 d3;
          d5 = each_replace (span_to_sup L) d4;
          d6 = each_replace (script_to_latex L) d5;
          d7 = remove_all
                 (\<lambda>el. has_class ''MathJax'' el \<or> has_class ''MathJax_Preview'' el
                       \<or> has_class ''MJX_Assistive_MathML'' el) d6;
          d8 = remove_all is_decorative_img d7;
          d9 = each_replace (unwrap_p L) d8;
          d10 = removeAttr (has_tag ''table'') ''cellspacing''
                  (removeAttr (has_tag ''table'') ''cellpadding'' d9);
          d11 = remove_br_in_tables False d10
      in if tables_break d11 then Inl TypeError
         else Inr (trim_br_around_tables d11))"

text \<open>The five \<open>replace\<close> calls on the serialised tree.\<close>

definition stringPasses :: "string \<Rightarrow> string" where
  "stringPasses processedHtml =
     (let p1 = js_replace_all match_comment [] processedHtml;
          p2 = js_replace_all (match_literal ''&nbsp;'') '' '' p1;
          p3 = js_replace_all (match_literal [CHR 0xAD]) [] p2;
          p4 = js_replace_all match_three_br ''<br><br>'' p3
      in js_replace_all match_edge_br [] p4)"

definition minifyHtml :: "libs \<Rightarrow> string \<Rightarrow> string" where
  \<comment> \<open>\<open>try { return await minify(...) } catch { return htmlString }\<close>\<close>
  "minifyHtml L htmlString =
     (if htmlString = [] then htmlString
      else (case minify L htmlString of
              Some minified \<Rightarrow> minified
            | None \<Rightarrow> htmlString))"

text \<open>
  \<open>transformAndSanitizeHtml(htmlString)\<close>. The promise it returns is fulfilled with a
  string (\<open>Inr\<close>) or rejected with the error thrown on the way (\<open>Inl\<close>).
\<close>

definition transformAndSanitizeHtml :: "libs \<Rightarrow> string option \<Rightarrow> js_error + string" where
  "transformAndSanitizeHtml L htmlString =
     (case htmlString of
        None \<Rightarrow> Inr []
      | Some html \<Rightarrow>
          if html = [] then Inr []
          else
            (case domPasses L html of
               Inl e \<Rightarrow> Inl e
             | Inr doc \<Rightarrow>
                 (let processedHtml = stringPasses (toHtml L (plain doc));
                      minifiedHtml = minifyHtml L processedHtml
                  in Inr (js_trim minifiedHtml))))"

section \<open>A serialiser and a parser for evaluation\<close>

text \<open>
  To evaluate the model on concrete input the library parameters need values. The
  serialiser below writes a tree the way cheerio does for trees without special
  characters; the parser is the serialiser's inverse on a given list of trees and
  takes any other string as one text node.
\<close>

definition is_void :: "string \<Rightarrow> bool" where
  "is_void t = List.member [''br'', ''img'', ''hr'', ''input'', ''meta'', ''link''] t"

fun render_attrs :: "(string \<times> string) list \<Rightarrow> string" where
  "render_attrs [] = []"
| "render_attrs ((k, v) # kvs) = '' '' @ k @ ''=\"'' @ v @ ''\"'' @ render_attrs kvs"

fun render_node :: "node \<Rightarrow> string"
  and render :: "node list \<Rightarrow> string" where
  "render_node (Element t a cs) =
     (if is_void t then ''<'' @ t @ render_attrs a @ ''>''
      else ''<'' @ t @ render_attrs a @ ''>'' @ render cs @ ''</'' @ t @ ''>'')"
| "render_node (Text s) = s"
| "render_node (Comment s) = ''<!--'' @ s @ ''-->''"
| "render_node BrokenLink = []"
| "render [] = []"
| "render (n # ns) = render_node n @ render ns"

fun parse_known :: "node list list \<Rightarrow> string \<Rightarrow> node list" where
  "parse_known [] s = (if s = [] then [] else [Text s])"
| "parse_known (doc # docs) s = (if render doc = s then doc else parse_known docs s)"

definition known_libs :: "node list list \<Rightarrow> libs" where
  "known_libs docs =
     \<lparr>loadDocument = parse_known docs, loadFragment = parse_known docs,
      toHtml = render, minify = Some\<rparr>"

definition failing_minifier :: "libs \<Rightarrow> libs" where
  "failing_minifier L = L\<lparr>minify := (\<lambda>s. None)\<rparr>"

text \<open>
  Two strings are equal up to white space when they agree after all white space has
  been deleted.
\<close>

definition equal_up_to_space :: "string \<Rightarrow> string \<Rightarrow> bool" where
  "equal_up_to_space a b =
     (filter (\<lambda>c. \<not> is_space c) a = filter (\<lambda>c. \<not> is_space c) b)"

text \<open>The library on the fragments that occur when a font element inside a font element is sanitized.\<close>

definition nested_font_libs :: libs where
  "nested_font_libs =
     known_libs
       [[Element ''font'' [] [Element ''font'' [] [Text ''x'']]],
        [Element ''font'' [] [Text ''x'']]]"

text \<open>
  The library on a fragment that is a table followed by an empty font element.
\<close>

definition table_and_font :: "node list" where
  "table_and_font =
     [Element ''table'' []
        [Element ''tbody'' [] [Element ''tr'' [] [Element ''td'' [] [Text ''1'']]]],
      Element ''font'' [] []]"

definition table_font_libs :: libs where
  "table_font_libs = known_libs [table_and_font]"

text \<open>The library on the fragments of a one-paragraph input, with a minifier that throws.\<close>

definition paragraph_libs :: libs where
  "paragraph_libs =
     failing_minifier
       (known_libs
          [[Element ''p'' [] [Text '' a '']],
           [Text '' a '', Element ''br'' [] []]])"

section \<open>Extracting one question from a page snapshot\<close>

text \<open>
  The selectors come from \<open>utils/selectors.js\<close>, which is not among the sources, so they
  are parameters: each selector is given by the predicate that says which elements it
  matches, and \<open>correctOptionClass\<close> is a class name.
\<close>

record selectors =
  examName :: "node \<Rightarrow> bool"
  activeQuestionContainer :: "node \<Rightarrow> bool"
  questionNumber :: "node \<Rightarrow> bool"
  sectionName :: "node \<Rightarrow> bool"
  comprehension :: "node \<Rightarrow> bool"
  questionBody :: "node \<Rightarrow> bool"
  solution :: "node \<Rightarrow> bool"
  optionContainer :: "node \<Rightarrow> bool"
  optionText :: "node \<Rightarrow> bool"
  correctOptionClass :: string

text \<open>
  A cheerio selection is a list of elements in document order. An element is kept with
  its path: the positions, among the element children, that lead from the root to it.
  The last position of the path is what \<open>.index()\<close> returns for the element: its place
  among the element children of its parent. (\<open>.index()\<close> looks the first element of a
  selection up among the element children of the selection's parents; the model takes
  the selected elements to have one parent, as the option containers of a question do.)
\<close>

type_synonym selection = "(nat list \<times> node) list"

fun elements_node :: "nat list \<Rightarrow> nat \<Rightarrow> node \<Rightarrow> selection"
  and elements :: "nat list \<Rightarrow> nat \<Rightarrow> node list \<Rightarrow> selection" where
  "elements_node pp i (Element t a cs) =
     (pp @ [i], Element t a cs) # elements (pp @ [i]) 0 cs"
| "elements_node pp i (Text s) = []"
| "elements_node pp i (Comment s) = []"
| "elements_node pp i BrokenLink = []"
| "elements pp i [] = []"
| "elements pp i (n # ns) =
     elements_node pp i n @ elements pp (if is_element n then Suc i else i) ns"

fun proper_prefix :: "nat list \<Rightarrow> nat list \<Rightarrow> bool" where
  "proper_prefix [] ys = (ys \<noteq> [])"
| "proper_prefix (x # xs) [] = False"
| "proper_prefix (x # xs) (y # ys) = (x = y \<and> proper_prefix xs ys)"

definition select :: "node list \<Rightarrow> (node \<Rightarrow> bool) \<Rightarrow> selection" where
  \<comment> \<open>\<open>$(selector)\<close>\<close>
  "select doc sel = filter (\<lambda>e. sel (snd e)) (elements [] 0 doc)"

definition find_in :: "node list \<Rightarrow> selection \<Rightarrow> (node \<Rightarrow> bool) \<Rightarrow> selection" where
  \<comment> \<open>\<open>$context.find(selector)\<close>: the matching descendants of the context's elements\<close>
  "find_in doc context sel =
     filter (\<lambda>e. sel (snd e) \<and> list_ex (\<lambda>c. proper_prefix (fst c) (fst e)) context)
       (elements [] 0 doc)"

definition html_of :: "libs \<Rightarrow> selection \<Rightarrow> string option" where
  \<comment> \<open>\<open>.html()\<close>: of the first element, nothing for an empty selection\<close>
  "html_of L sel = (case sel of [] \<Rightarrow> None | e # es \<Rightarrow> Some (innerHtml L (snd e)))"

definition index_of_first :: "selection \<Rightarrow> int" where
  \<comment> \<open>\<open>.index()\<close>\<close>
  "index_of_first sel = (case sel of [] \<Rightarrow> - 1 | e # es \<Rightarrow> int (last (fst e)))"

definition is_hidden_xs :: "node \<Rightarrow> bool" where
  "is_hidden_xs el = (has_tag ''span'' el \<and> has_class ''hidden-xs'' el)"

definition text_without_hidden :: "selection \<Rightarrow> string" where
  \<comment> \<open>\<open>.clone()\<close>, \<open>.find('span.hidden-xs').remove()\<close>, \<open>.text()\<close>\<close>
  "text_without_hidden sel =
     concat (map (\<lambda>e. text_of (remove_all is_hidden_xs (children (snd e)))) sel)"

definition first_digits :: "string \<Rightarrow> string option" where
  \<comment> \<open>\<open>s.match(/\\d+/)\<close>\<close>
  "first_digits s =
     (let r = dropWhile (\<lambda>c. \<not> is_digit c) s
      in if r = [] then None else Some (takeWhile is_digit r))"

definition parseInt :: "string \<Rightarrow> int" where
  \<comment> \<open>\<open>parseInt(digits, 10)\<close> on a run of decimal digits\<close>
  "parseInt ds = foldl (\<lambda>acc c. 10 * acc + (int (of_char c) - 48)) 0 ds"

record question_record =
  noteId :: int
  SL :: int
  Question :: string
  OP1 :: "string option"
  OP2 :: "string option"
  OP3 :: "string option"
  OP4 :: "string option"
  Answer :: int
  Solution :: string
  Tags :: "string list"

definition or_null :: "string list \<Rightarrow> nat \<Rightarrow> string option" where
  \<comment> \<open>\<open>xs[i] || null\<close>\<close>
  "or_null xs i = (if i < length xs \<and> xs ! i \<noteq> [] then Some (xs ! i) else None)"

definition question_header :: string where
  "question_header = ''<br><br><strong><u>Question</u></strong><br>''"

text \<open>
  \<open>scrapeSingleQuestionPage(html, fallbackCounter, log, noteId, serialNumber)\<close> of
  \<open>scraper.js\<close>; \<open>None\<close> is \<open>null\<close>. The logger has no part in the result. The body
  awaits the sanitizer for the passage, the question body and the solution one after
  the other and then for all options (\<open>Promise.all\<close>); when one of these promises is
  rejected, the \<open>catch\<close> block returns \<open>null\<close>.
\<close>

fun promise_all :: "(js_error + 'a) list \<Rightarrow> js_error + 'a list" where
  "promise_all [] = Inr []"
| "promise_all (x # xs) =
     (case x of
        Inl e \<Rightarrow> Inl e
      | Inr v \<Rightarrow> (case promise_all xs of Inl e \<Rightarrow> Inl e | Inr vs \<Rightarrow> Inr (v # vs)))"

definition scrapeSingleQuestionPage ::
  "libs \<Rightarrow> selectors \<Rightarrow> string \<Rightarrow> int \<Rightarrow> int \<Rightarrow> int \<Rightarrow> question_record option" where
  "scrapeSingleQuestionPage L s html fallbackCounter noteId' serialNumber =
     (let doc = parseDocument L html;
          container = select doc (activeQuestionContainer s)
      in if length container = 0 then None
         else
           (let questionNumberElement = find_in doc container (questionNumber s);
                slText = js_trim (text_without_hidden questionNumberElement);
                slMatch = first_digits slText;
                questionNumberForTagging =
                  (case slMatch of Some ds \<Rightarrow> parseInt ds | None \<Rightarrow> fallbackCounter);
                sectionName' = js_trim (text_of (map snd (select doc (sectionName s))));
                tag = getTagForQuestion (Some sectionName') (Some questionNumberForTagging);
                rawComprehension =
                  map_option js_trim (html_of L (find_in doc container (comprehension s)));
                rawQuestionBody =
                  map_option js_trim (html_of L (find_in doc container (questionBody s)));
                rawSolution =
                  map_option js_trim (html_of L (find_in doc container (solution s)));
                options = find_in doc container (optionContainer s);
                rawOptions =
                  map (\<lambda>element. map_option js_trim
                                    (html_of L (find_in doc [element] (optionText s))))
                    options
            in case transformAndSanitizeHtml L rawComprehension of
                 Inl e \<Rightarrow> None
               | Inr sanitizedComprehension \<Rightarrow>
            (case transformAndSanitizeHtml L rawQuestionBody of
                 Inl e \<Rightarrow> None
               | Inr sanitizedQuestionBody \<Rightarrow>
            (case transformAndSanitizeHtml L rawSolution of
                 Inl e \<Rightarrow> None
               | Inr sanitizedSolution \<Rightarrow>
            (case promise_all (map (transformAndSanitizeHtml L) rawOptions) of
                 Inl e \<Rightarrow> None
               | Inr sanitizedOptions \<Rightarrow>
               (let finalQuestionHtml =
                      (if sanitizedComprehension \<noteq> []
                       then sanitizedComprehension @ question_header @ sanitizedQuestionBody
                       else sanitizedQuestionBody);
                    correctOption =
                      filter (\<lambda>e. has_class (correctOptionClass s) (snd e)) options;
                    correctAnswerIndex = index_of_first correctOption
                in if finalQuestionHtml = [] \<or> length sanitizedOptions = 0 then None
                   else Some
                     \<lparr>noteId = noteId',
                      SL = serialNumber,
                      Question = finalQuestionHtml,
                      OP1 = or_null sanitizedOptions 0,
                      OP2 = or_null sanitizedOptions 1,
                      OP3 = or_null sanitizedOptions 2,
                      OP4 = or_null sanitizedOptions 3,
                      Answer = (if correctAnswerIndex \<noteq> - 1 then correctAnswerIndex + 1
                                else 0),
                      Solution = sanitizedSolution,
                      Tags = (case tag of Some t \<Rightarrow> [t] | None \<Rightarrow> [])\<rparr>))))))"

text \<open>The same function in the second variant of the scraper.\<close>

definition scrapeSingleQuestionPage_v2 ::
  "libs \<Rightarrow> selectors \<Rightarrow> string \<Rightarrow> int \<Rightarrow> int \<Rightarrow> int \<Rightarrow> question_record option" where
  "scrapeSingleQuestionPage_v2 L s html fallbackCounter noteId' serialNumber =
     (let doc = parseDocument L html;
          container = select doc (activeQuestionContainer s)
      in if length container = 0 then None
         else
           (let numEl = find_in doc container (questionNumber s);
                slText = js_trim (text_without_hidden numEl);
                qNum = (if first_digits slText \<noteq> None
                        then parseInt (the (first_digits slText)) else fallbackCounter);
                sectionName' = js_trim (text_of (map snd (select doc (sectionName s))));
                tag = getTagForQuestion_v2 (Some sectionName') (Some qNum);
                rawComprehension =
                  map_option js_trim (html_of L (find_in doc container (comprehension s)));
                rawQuestionBody =
                  map_option js_trim (html_of L (find_in doc container (questionBody s)));
                rawSolution =
                  map_option js_trim (html_of L (find_in doc container (solution s)));
                rawOptions =
                  map (\<lambda>el. map_option js_trim (html_of L (find_in doc [el] (optionText s))))
                    (find_in doc container (optionContainer s))
            in case transformAndSanitizeHtml L rawComprehension of
                 Inl e \<Rightarrow> None
               | Inr sanitizedComprehension \<Rightarrow>
            (case transformAndSanitizeHtml L rawQuestionBody of
                 Inl e \<Rightarrow> None
               | Inr sanitizedQuestionBody \<Rightarrow>
            (case transformAndSanitizeHtml L rawSolution of
                 Inl e \<Rightarrow> None
               | Inr sanitizedSolution \<Rightarrow>
            (case promise_all (map (transformAndSanitizeHtml L) rawOptions) of
                 Inl e \<Rightarrow> None
               | Inr sanitizedOptions \<Rightarrow>
               (let finalQuestionHtml =
                      (if sanitizedComprehension \<noteq> []
                       then sanitizedComprehension @ question_header @ sanitizedQuestionBody
                       else sanitizedQuestionBody);
                    correctAnswerIndex =
                      index_of_first
                        (filter (\<lambda>e. has_class (correctOptionClass s) (snd e))
                           (find_in doc container (optionContainer s)))
                in if finalQuestionHtml = [] \<or> length sanitizedOptions = 0 then None
                   else Some
                     \<lparr>noteId = noteId', SL = serialNumber, Question = finalQuestionHtml,
                      OP1 = or_null sanitizedOptions 0, OP2 = or_null sanitizedOptions 1,
                      OP3 = or_null sanitizedOptions 2, OP4 = or_null sanitizedOptions 3,
                      Answer = (if correctAnswerIndex \<noteq> - 1 then correctAnswerIndex + 1
                                else 0),
                      Solution = sanitizedSolution,
                      Tags = (case tag of Some t \<Rightarrow> [t] | None \<Rightarrow> [])\<rparr>))))))"

section \<open>Sample pages for evaluation\<close>

text \<open>
  Selectors that go by class names, and the tree of a page with a section heading and an
  active question container: its number, its body, its options (each option container
  with the given classes and the given text) and its solution.
\<close>

definition class_selectors :: selectors where
  "class_selectors =
     \<lparr>examName = has_class ''exam'',
      activeQuestionContainer = has_class ''active'',
      questionNumber = has_class ''number'',
      sectionName = has_class ''section'',
      comprehension = has_class ''passage'',
      questionBody = has_class ''body'',
      solution = has_class ''solution'',
      optionContainer = has_class ''option'',
      optionText = has_class ''text'',
      correctOptionClass = ''correct''\<rparr>"

definition option_node :: "string \<times> string \<Rightarrow> node" where
  "option_node opt =
     Element ''li'' [(''class'', fst opt)]
       [Element ''div'' [(''class'', ''text'')] (if snd opt = [] then [] else [Text (snd opt)])]"

definition sample_page :: "string \<Rightarrow> string \<Rightarrow> (string \<times> string) list \<Rightarrow> node list" where
  "sample_page number body opts =
     [Element ''html'' []
        [Element ''head'' [] [],
         Element ''body'' []
           [Element ''h2'' [(''class'', ''section'')] [Text ''Quantitative Aptitude''],
            Element ''div'' [(''class'', ''active'')]
              [Element ''div'' [(''class'', ''number'')] [Text number],
               Element ''div'' [(''class'', ''body'')] [Text body],
               Element ''ul'' [] (map option_node opts),
               Element ''div'' [(''class'', ''solution'')] [Text ''See the key.'']]]]]"

text \<open>
  The option containers of a snapshot, as \<open>scrapeSingleQuestionPage\<close> finds them, and
  what one of them sanitizes to.
\<close>

definition page_options :: "libs \<Rightarrow> selectors \<Rightarrow> string \<Rightarrow> selection" where
  "page_options L s html =
     find_in (parseDocument L html)
       (select (parseDocument L html) (activeQuestionContainer s)) (optionContainer s)"

definition option_result ::
  "libs \<Rightarrow> selectors \<Rightarrow> string \<Rightarrow> nat list \<times> node \<Rightarrow> js_error + string" where
  "option_result L s html element =
     transformAndSanitizeHtml L
       (map_option js_trim
          (html_of L (find_in (parseDocument L html) [element] (optionText s))))"

definition sanitized_option :: "libs \<Rightarrow> selectors \<Rightarrow> string \<Rightarrow> nat list \<times> node \<Rightarrow> string" where
  \<comment> \<open>the string of a fulfilled result\<close>
  "sanitized_option L s html element =
     (case option_result L s html element of Inr str \<Rightarrow> str | Inl e \<Rightarrow> [])"

definition marked_options :: "libs \<Rightarrow> selectors \<Rightarrow> string \<Rightarrow> selection" where
  "marked_options L s html =
     filter (\<lambda>e. has_class (correctOptionClass s) (snd e)) (page_options L s html)"

definition four_option_page :: "node list" where
  "four_option_page =
     sample_page ''Question No. 7'' ''What is 2 + 2?''
       [(''option'', ''3''), (''option'', ''5''), (''option correct'', ''4''),
        (''option'', ''22'')]"

definition empty_option_page :: "node list" where
  "empty_option_page = sample_page ''Question No. 7'' ''What is 2 + 2?'' [(''option'', '''')]"

definition five_option_page :: "node list" where
  "five_option_page =
     sample_page ''Question No. 7'' ''What is 2 + 2?''
       [(''option'', ''1''), (''option'', ''2''), (''option'', ''3''), (''option'', ''5''),
        (''option correct'', ''4'')]"

definition no_option_page :: "node list" where
  "no_option_page = sample_page ''Question No. 7'' ''What is 2 + 2?'' []"

text \<open>
  A page whose question body is a table followed by an empty font element.
\<close>

definition table_question_page :: "node list" where
  "table_question_page =
     [Element ''html'' []
        [Element ''head'' [] [],
         Element ''body'' []
           [Element ''h2'' [(''class'', ''section'')] [Text ''Quantitative Aptitude''],
            Element ''div'' [(''class'', ''active'')]
              [Element ''div'' [(''class'', ''number'')] [Text ''Question No. 7''],
               Element ''div'' [(''class'', ''body'')] table_and_font,
               Element ''ul'' [] [option_node (''option'', ''3'')],
               Element ''div'' [(''class'', ''solution'')] [Text ''See the key.'']]]]]"

section \<open>The task list, the batch driver and the link validator\<close>

text \<open>
  Paths are lists of segments below the project root, which both scripts compute from
  their own location (\<open>PROJECT_ROOT\<close> in the batch driver, \<open>rootDir\<close> in the validator).
  \<open>path.join\<close> concatenates its arguments and normalises the result: empty segments
  and \<open>.\<close> go, \<open>..\<close> takes the segment before it away, and a separator at the end
  of the last argument stays at the end of the result, which is why a joined path is
  a list of segments with a flag for the separator at its end. The file system maps the
  paths that exist to what is there, a regular file or a directory. \<open>access(path,
  F_OK)\<close> succeeds when the path exists, and for a path that ends in a separator only
  when it is a directory.
\<close>

type_synonym path = "string list"

datatype file_kind = RegularFile | Directory

type_synonym file_system = "path \<Rightarrow> file_kind option"

fun split_on :: "char \<Rightarrow> string \<Rightarrow> string list" where
  "split_on sep [] = [[]]"
| "split_on sep (c # cs) =
     (if c = sep then [] # split_on sep cs
      else (case split_on sep cs of
              [] \<Rightarrow> [[c]]
            | seg # segs \<Rightarrow> (c # seg) # segs))"

fun normalize_onto :: "path \<Rightarrow> string list \<Rightarrow> path" where
  "normalize_onto acc [] = acc"
| "normalize_onto acc (seg # segs) =
     (if seg = [] \<or> seg = ''.'' then normalize_onto acc segs
      else if seg = ''..'' \<and> acc \<noteq> [] \<and> last acc \<noteq> ''..''
        then normalize_onto (butlast acc) segs
      else normalize_onto (acc @ [seg]) segs)"

definition path_join :: "path \<Rightarrow> string \<Rightarrow> path \<times> bool" where
  "path_join dir name =
     (normalize_onto [] (dir @ split_on CHR ''/'' name),
      name \<noteq> [] \<and> last name = CHR ''/'')"

definition access :: "file_system \<Rightarrow> path \<times> bool \<Rightarrow> bool" where
  "access fs p =
     (case fs (fst p) of
        None \<Rightarrow> False
      | Some Directory \<Rightarrow> True
      | Some RegularFile \<Rightarrow> \<not> snd p)"

fun join_segments :: "path \<Rightarrow> string" where
  "join_segments [] = []"
| "join_segments [seg] = seg"
| "join_segments (seg # segs) = seg @ ''/'' @ join_segments segs"

record task =
  Link :: string
  Status :: string
  File :: "string option"

text \<open>The directories of \<open>validateLinks.js\<close> and of the batch driver.\<close>

definition scrapedDir :: path where
  "scrapedDir = [''output'', ''scraped'']"

definition taggedDir :: path where
  "taggedDir = [''output'', ''tagged'']"

definition OUTPUT_DIR :: path where
  "OUTPUT_DIR = [''output'', ''scraped'']"

text \<open>
  \<open>fileExists(fileName)\<close>: \<open>access\<close> on the name joined to the scraped directory, then
  on the name joined to the tagged directory.
\<close>

definition fileExists :: "file_system \<Rightarrow> string \<Rightarrow> bool" where
  "fileExists fs fileName =
     (let scrapedFile = path_join scrapedDir fileName;
          taggedFile = path_join taggedDir fileName
      in if access fs scrapedFile then True
         else if access fs taggedFile then True
         else False)"

text \<open>
  The callback that \<open>validateLinks\<close> maps over the task list. \<open>entry.File\<close> is falsy when
  the field is missing or the empty string.
\<close>

definition validateEntry :: "file_system \<Rightarrow> task \<Rightarrow> task" where
  "validateEntry fs entry =
     (case File entry of
        None \<Rightarrow> entry
      | Some file \<Rightarrow>
          if Status entry = ''COMPLETED'' \<and> file \<noteq> [] then
            (if \<not> fileExists fs file
             then entry\<lparr>Status := ''PENDING'', File := Some []\<rparr>
             else entry)
          else entry)"

definition validateLinks :: "file_system \<Rightarrow> task list \<Rightarrow> task list" where
  "validateLinks fs links = map (validateEntry fs) links"

text \<open>
  What the batch driver's \<open>main\<close> records for a task whose scraper run succeeded:
  the status COMPLETED and, as \<open>File\<close>, the path of the newest output file relative to
  the project root (\<open>path.relative(PROJECT_ROOT, path.join(OUTPUT_DIR, outputFileName))\<close>),
  or \<open>UNKNOWN\<close> when no output file was found.
\<close>

definition recordSuccess :: "task \<Rightarrow> string option \<Rightarrow> task" where
  "recordSuccess t outputFileName =
     (case outputFileName of
        Some name \<Rightarrow>
          t\<lparr>Status := ''COMPLETED'',
            File := Some (join_segments (fst (path_join OUTPUT_DIR name)))\<rparr>
      | None \<Rightarrow> t\<lparr>Status := ''COMPLETED'', File := Some ''UNKNOWN''\<rparr>)"

text \<open>
  A project directory after one successful run of the batch driver: the output
  directory with the file \<open>Exam.json\<close> in it.
\<close>

definition disk_after_run :: file_system where
  "disk_after_run =
     map_of
       [([''output''], Directory),
        ([''output'', ''scraped''], Directory),
        ([''output'', ''scraped'', ''Exam.json''], RegularFile)]"

definition pending_task :: task where
  "pending_task =
     \<lparr>Link = ''https://example.org/a'', Status = ''PENDING'', File = Some ''''\<rparr>"

section \<open>The scrape session\<close>

text \<open>
  The command line after \<open>main\<close> has read it: \<open>scrapeLimit\<close> is
  \<open>options.count ? parseInt(options.count, 10) : Infinity\<close>, with \<open>None\<close> for
  \<open>Infinity\<close> (the option is a string, so \<open>--count 0\<close> gives the limit 0; a count
  that \<open>parseInt\<close> cannot read gives \<open>NaN\<close>, which no size reaches either);
  \<open>questionsToSkip\<close> is \<open>parseInt(options.skip, 10)\<close>; the common tag is falsy when
  it is missing or empty.
\<close>

record cli =
  link :: "string option"
  scrapeLimit :: "int option"
  commonTag :: "string option"
  questionsToSkip :: int

text \<open>
  What the browser shows in one round of the harvesting loop: the snapshot of the page
  after the click on the solution button, whether the next button is there, and
  whether the page text has the last-question message after the click on it. The later
  an observation, the fewer rounds read it. \<open>viewSolutionPresent\<close> matters to the second
  variant only, whose simulated click throws when its target is missing.
\<close>

record page_obs =
  snapshot :: string
  viewSolutionPresent :: bool
  nextExists :: bool
  reachedEnd :: bool

record loop_state =
  allQuestionsData :: "question_record list"
  questionCounter :: int
  noteIdCounter :: int
  serialNumberCounter :: int

datatype loop_end = LimitReached | NoNextButton | LastQuestionMessage | ClickFailed

definition initial_state :: "int \<Rightarrow> loop_state" where
  \<comment> \<open>the four declarations in front of the loop\<close>
  "initial_state skip =
     \<lparr>allQuestionsData = [], questionCounter = skip + 1, noteIdCounter = 1000 + skip,
      serialNumberCounter = 1\<rparr>"

definition with_common_tag :: "string option \<Rightarrow> question_record \<Rightarrow> question_record" where
  \<comment> \<open>\<open>if (commonTag) { currentQuestionData.Tags.push(commonTag); }\<close>\<close>
  "with_common_tag tag d =
     (case tag of
        None \<Rightarrow> d
      | Some t \<Rightarrow> if t = [] then d else d\<lparr>Tags := Tags d @ [t]\<rparr>)"

definition collect :: "string option \<Rightarrow> loop_state \<Rightarrow> question_record option \<Rightarrow> loop_state" where
  \<comment> \<open>the \<open>if (currentQuestionData) ... else ...\<close> of the loop body\<close>
  "collect tag st currentQuestionData =
     (case currentQuestionData of
        Some d \<Rightarrow>
          st\<lparr>allQuestionsData := allQuestionsData st @ [with_common_tag tag d],
             serialNumberCounter := serialNumberCounter st + 1\<rparr>
      | None \<Rightarrow> st)"

definition limit_reached :: "int option \<Rightarrow> loop_state \<Rightarrow> bool" where
  \<comment> \<open>\<open>allQuestionsData.length >= scrapeLimit\<close>\<close>
  "limit_reached limit st =
     (case limit of None \<Rightarrow> False | Some n \<Rightarrow> int (length (allQuestionsData st)) \<ge> n)"

definition advance :: "loop_state \<Rightarrow> loop_state" where
  \<comment> \<open>\<open>questionCounter++; noteIdCounter++;\<close>\<close>
  "advance st =
     st\<lparr>questionCounter := questionCounter st + 1, noteIdCounter := noteIdCounter st + 1\<rparr>"

text \<open>
  The \<open>while (true)\<close> loop of \<open>main\<close> in \<open>scraper.js\<close>. It reads one observation per
  round. The result is how the loop ended, the state it ended in and the observations
  it has not read; \<open>None\<close> means that the loop is still running when the given
  observations are used up.
\<close>

fun harvestLoop ::
  "libs \<Rightarrow> selectors \<Rightarrow> int option \<Rightarrow> string option \<Rightarrow> loop_state \<Rightarrow> page_obs list
     \<Rightarrow> (loop_end \<times> loop_state \<times> page_obs list) option" where
  "harvestLoop L s limit tag st [] = None"
| "harvestLoop L s limit tag st (p # ps) =
     (let currentQuestionData =
            scrapeSingleQuestionPage L s (snapshot p)
              (questionCounter st) (noteIdCounter st) (serialNumberCounter st);
          st1 = collect tag st currentQuestionData
      in if limit_reached limit st1 then Some (LimitReached, st1, ps)
         else if \<not> nextExists p then Some (NoNextButton, st1, ps)
         else if reachedEnd p then Some (LastQuestionMessage, advance st1, ps)
         else harvestLoop L s limit tag (advance st1) ps)"

text \<open>
  The loop of the second variant: the same rounds, with \<open>humanClick\<close> on the solution
  button, which throws when the button is missing; the exception ends the loop and
  nothing is collected in that round. The click on the next button comes right after
  the check that the button is there and is taken to succeed.
\<close>

fun harvestLoop_v2 ::
  "libs \<Rightarrow> selectors \<Rightarrow> int option \<Rightarrow> string option \<Rightarrow> loop_state \<Rightarrow> page_obs list
     \<Rightarrow> (loop_end \<times> loop_state \<times> page_obs list) option" where
  "harvestLoop_v2 L s limit tag st [] = None"
| "harvestLoop_v2 L s limit tag st (p # ps) =
     (if \<not> viewSolutionPresent p then Some (ClickFailed, st, ps)
      else
        (let qData =
               scrapeSingleQuestionPage_v2 L s (snapshot p)
                 (questionCounter st) (noteIdCounter st) (serialNumberCounter st);
             st1 = collect tag st qData
         in if limit_reached limit st1 then Some (LimitReached, st1, ps)
            else if \<not> nextExists p then Some (NoNextButton, st1, ps)
            else if reachedEnd p then Some (LastQuestionMessage, advance st1, ps)
            else harvestLoop_v2 L s limit tag (advance st1) ps))"

text \<open>
  The rest of \<open>main\<close> in \<open>scraper.js\<close>. What the browser and the network do is given
  by the environment: whether the two connections come about, which navigation
  attempts succeed, how the two waits for required selectors end (\<open>waitForSelector\<close>
  returns, throws its \<open>TimeoutError\<close>, or fails otherwise), the analysis page, at which
  skip steps the next button is there, and the observations of the harvesting loop.
\<close>

datatype wait_outcome = Found | TimedOut | OtherError

record session_env =
  browserConnects :: bool
  tabConnects :: bool
  navigationOk :: "nat \<Rightarrow> bool"
  examNameWait :: wait_outcome
  solutionsButtonWait :: wait_outcome
  analysisPageHtml :: string
  skipNextExists :: "nat \<Rightarrow> bool"
  pages :: "page_obs list"

datatype resource = NotOpened | Opened | Closed

record session =
  browserClient :: resource
  tabClient :: resource
  logger :: resource
  sanitizedExamName :: string
  skipClicks :: nat
  written :: "(string \<times> question_record list) option"

text \<open>
  How the body of the \<open>try\<close> block ends: it runs to its end, it throws, or it calls
  \<open>process.exit\<close>, which ends the process on the spot.
\<close>

datatype body_end = Completed | Thrown | ProcessExit int

definition start_session :: session where
  "start_session =
     \<lparr>browserClient = NotOpened, tabClient = NotOpened, logger = NotOpened,
      sanitizedExamName = ''scraped_quiz_data'', skipClicks = 0, written = None\<rparr>"

fun navigate :: "(nat \<Rightarrow> bool) \<Rightarrow> nat \<Rightarrow> nat \<Rightarrow> bool" where
  \<comment> \<open>the retry loop \<open>for (let i = 1; i <= maxRetries; i++)\<close>, given the attempts left;
      \<open>False\<close> when the last attempt fails and its error is thrown on\<close>
  "navigate ok i 0 = True"
| "navigate ok i (Suc left) = (if ok i then True else if left = 0 then False else navigate ok (Suc i) left)"

definition strip_illegal :: "string \<Rightarrow> string" where
  \<comment> \<open>\<open>.replace(/[<>:"/\\\\|?*]/g, '')\<close>\<close>
  "strip_illegal s =
     filter (\<lambda>c. \<not> List.member [CHR ''<'', CHR ''>'', CHR '':'', CHR 0x22, CHR ''/'', CHR 0x5C,
                                     CHR ''|'', CHR ''?'', CHR ''*''] c) s"

definition sanitize_exam_name :: "string \<Rightarrow> string" where
  "sanitize_exam_name examTitle =
     strip_illegal (js_replace_all (match_literal '': '') '' - '' examTitle)"

fun skip_clicks :: "(nat \<Rightarrow> bool) \<Rightarrow> nat \<Rightarrow> nat \<Rightarrow> nat" where
  \<comment> \<open>the skipping loop: the number of clicks on the next button it makes\<close>
  "skip_clicks present i 0 = 0"
| "skip_clicks present i (Suc left) =
     (if \<not> present i then 0 else Suc (skip_clicks present (Suc i) left))"

text \<open>
  The body of the \<open>try\<close> block. The result is \<open>None\<close> when the harvesting loop is
  still running at the end of the given observations.
\<close>

definition try_body ::
  "libs \<Rightarrow> selectors \<Rightarrow> cli \<Rightarrow> session_env \<Rightarrow> (body_end \<times> session) option" where
  "try_body L s opts env =
     (let s0 = start_session in
      if \<not> browserConnects env then Some (Thrown, s0)
      else
        (let s1 = s0\<lparr>browserClient := Opened\<rparr> in
         if \<not> tabConnects env then Some (Thrown, s1)
         else
           (let s2 = s1\<lparr>tabClient := Opened\<rparr> in
            if \<not> navigate (navigationOk env) 1 3 then Some (Thrown, s2)
            else if examNameWait env = TimedOut then Some (ProcessExit 1, s2)
            else if examNameWait env = OtherError then Some (Thrown, s2)
            else if solutionsButtonWait env = TimedOut then Some (ProcessExit 1, s2)
            else if solutionsButtonWait env = OtherError then Some (Thrown, s2)
            else
              (let examTitle =
                     js_trim (text_of (map snd
                        (select (parseDocument L (analysisPageHtml env)) (examName s))));
                   name = (if examTitle \<noteq> [] then sanitize_exam_name examTitle
                           else sanitizedExamName s2);
                   clicks = (if questionsToSkip opts > 0
                             then skip_clicks (skipNextExists env) 0 (nat (questionsToSkip opts))
                             else 0);
                   s3 = s2\<lparr>sanitizedExamName := name, logger := Opened,
                          skipClicks := clicks\<rparr>
               in case harvestLoop L s (scrapeLimit opts) (commonTag opts)
                         (initial_state (questionsToSkip opts)) (pages env) of
                    None \<Rightarrow> None
                  | Some (ended, st, rest) \<Rightarrow>
                      if length (allQuestionsData st) > 0
                      then Some (Completed,
                                 s3\<lparr>written := Some (name @ ''.json'', allQuestionsData st)\<rparr>)
                      else Some (Completed, s3)))))"

text \<open>
  \<open>main\<close>: the \<open>try\<close> block, the \<open>catch\<close> block, which logs and calls
  \<open>process.exit(1)\<close>, and the \<open>finally\<close> block, which closes what has been opened.
  A call of \<open>process.exit\<close> ends the process where it stands: the \<open>finally\<close> block runs
  only when the body has run to its end. The result is the exit status and the session
  at the moment the process ends.
\<close>

definition close_resource :: "resource \<Rightarrow> resource" where
  \<comment> \<open>\<open>if (client) await client.close();\<close>\<close>
  "close_resource r = (if r = Opened then Closed else r)"

definition finally_block :: "session \<Rightarrow> session" where
  "finally_block ss =
     ss\<lparr>tabClient := close_resource (tabClient ss),
        browserClient := close_resource (browserClient ss),
        logger := close_resource (logger ss)\<rparr>"

definition main :: "libs \<Rightarrow> selectors \<Rightarrow> cli \<Rightarrow> session_env \<Rightarrow> (int \<times> session) option" where
  "main L s opts env =
     (if link opts = None \<or> link opts = Some [] then Some (1, start_session)
      else
        (case try_body L s opts env of
           None \<Rightarrow> None
         | Some (Completed, ss) \<Rightarrow> Some (0, finally_block ss)
         | Some (Thrown, ss) \<Rightarrow> Some (1, ss)
         | Some (ProcessExit code, ss) \<Rightarrow> Some (code, ss)))"

text \<open>
  The serial numbering of a state: the records carry the serial numbers 1, 2, 3, ... in
  the order in which they were collected, and the counter is one ahead.
\<close>

definition serials_from_one :: "loop_state \<Rightarrow> bool" where
  "serials_from_one st =
     (map SL (allQuestionsData st) = map int [1..<Suc (length (allQuestionsData st))]
      \<and> serialNumberCounter st = 1 + int (length (allQuestionsData st)))"

text \<open>Sample input for a session: a command line, five observations of one page, an environment.\<close>

definition sample_cli :: cli where
  "sample_cli =
     \<lparr>link = Some ''https://example.org/analysis'', scrapeLimit = None, commonTag = None,
      questionsToSkip = 0\<rparr>"

definition sample_obs :: page_obs where
  "sample_obs =
     \<lparr>snapshot = render four_option_page, viewSolutionPresent = True, nextExists = True,
      reachedEnd = False\<rparr>"

definition analysis_page :: "node list" where
  "analysis_page =
     [Element ''html'' []
        [Element ''head'' [] [],
         Element ''body'' []
           [Element ''h1'' [(''class'', ''exam'')] [Text ''Mock Test: Paper 1'']]]]"

definition sample_env :: session_env where
  "sample_env =
     \<lparr>browserConnects = True, tabConnects = True, navigationOk = (\<lambda>i. True),
      examNameWait = Found, solutionsButtonWait = Found,
      analysisPageHtml = render analysis_page,
      skipNextExists = (\<lambda>i. True),
      pages = [sample_obs, sample_obs, sample_obs\<lparr>nextExists := False\<rparr>]\<rparr>"

definition sample_libs :: libs where
  "sample_libs =
     known_libs [four_option_page, analysis_page]"

definition missing_obs :: page_obs where
  \<comment> \<open>an observation whose snapshot has no active question container\<close>
  "missing_obs = sample_obs\<lparr>snapshot := ''loading''\<rparr>"

definition sample_record :: "int \<Rightarrow> int \<Rightarrow> question_record" where
  \<comment> \<open>what the sample page yields under a given note id and serial number\<close>
  "sample_record n sl =
     \<lparr>noteId = n, SL = sl, Question = ''What is 2 + 2?'', OP1 = Some ''3'',
      OP2 = Some ''5'', OP3 = Some ''4'', OP4 = Some ''22'', Answer = 3,
      Solution = ''See the key.'', Tags = [''MATH'']\<rparr>"

definition skipped_pages :: "page_obs list" where
  \<comment> \<open>three pages of which the second has no active question container yet\<close>
  "skipped_pages = [sample_obs, missing_obs, sample_obs\<lparr>nextExists := False\<rparr>]"

definition skipped_state :: loop_state where
  "skipped_state =
     \<lparr>allQuestionsData = [sample_record 1002 1, sample_record 1004 2],
      questionCounter = 5, noteIdCounter = 1004, serialNumberCounter = 3\<rparr>"

definition five_pages :: "page_obs list" where
  "five_pages = [sample_obs, sample_obs, sample_obs, sample_obs, sample_obs]"

definition limit_one_state :: loop_state where
  \<comment> \<open>the state after one round that collected the sample page, without skip\<close>
  "limit_one_state =
     \<lparr>allQuestionsData = [with_common_tag None (sample_record 1000 1)],
      questionCounter = 0 + 1, noteIdCounter = 1000 + 0, serialNumberCounter = 2\<rparr>"

definition sample_session :: session where
  \<comment> \<open>how the sample session ends\<close>
  "sample_session =
     \<lparr>browserClient = Closed, tabClient = Closed, logger = Closed,
      sanitizedExamName = ''Mock Test - Paper 1'', skipClicks = 0,
      written = Some (''Mock Test - Paper 1.json'',
        [sample_record 1000 1, sample_record 1001 2, sample_record 1002 3])\<rparr>"

section \<open>Properties of the tag resolver\<close>

lemma js_trim_Nil: "js_trim [] = []"
  by (simp add: js_trim_def)

lemma qr_trim: "js_trim ''Quantitative Reasoning'' = ''Quantitative Reasoning''"
  by (simp add: js_trim_def is_space_def)

lemma qr_lower: "js_toLowerCase ''Quantitative Reasoning'' = ''quantitative reasoning''"
  by code_simp

lemma first_rule_keyword_rules:
  "first_rule keyword_rules t =
     (if js_includes (js_toLowerCase t) ''quantitative''
         \<or> js_includes (js_toLowerCase t) ''quants'' then Some ''MATH''
      else if js_includes (js_toLowerCase t) ''intelligence''
         \<or> js_includes (js_toLowerCase t) ''reasoning'' then Some ''GI''
      else if js_includes (js_toLowerCase t) ''english'' then Some ''ENG''
      else if js_includes (js_toLowerCase t) ''awareness''
         \<or> js_includes (js_toLowerCase t) ''knowledge'' then Some ''GK''
      else if js_includes (js_toLowerCase t) ''computer'' then Some ''COMPUTER''
      else if js_includes (js_toLowerCase t) ''bengali'' then Some ''BENGALI''
      else None)"
  by (simp only: keyword_rules_def first_rule.simps list_ex_Nil_iff list_ex_Cons_iff simp_thms)

lemma reserved_tag_None:
  assumes "reserved_tag t q = None"
  shows "\<not> (t = ''Section I'' \<and> 1 \<le> q \<and> q \<le> 30)"
    and "\<not> (t = ''Section I'' \<and> 31 \<le> q \<and> q \<le> 60)"
    and "\<not> (t = ''Section II'' \<and> 1 \<le> q \<and> q \<le> 45)"
    and "\<not> (t = ''Section II'' \<and> 46 \<le> q \<and> q \<le> 70)"
  using assms by (simp_all add: reserved_tag_def split: if_splits)

lemma getTagForQuestion_keywords:
  assumes "s \<noteq> [] \<and> reserved_tag (js_trim s) q = None"
  shows "getTagForQuestion (Some s) (Some q) = first_rule keyword_rules (js_trim s)"
proof -
  from assms have ne: "s \<noteq> []" and r: "reserved_tag (js_trim s) q = None"
    by simp_all
  note n = reserved_tag_None [OF r]
  show ?thesis
    unfolding getTagForQuestion_def first_rule_keyword_rules Let_def option.case
    by (simp only: ne n if_False)
qed

text \<open>
  Claim C3. With a section name and a number present, the resolver returns MATH for the
  first reserved label (after trimming) and a number in [1,30], GI for [31,60], ENG for
  the second reserved label and [1,45], GK for [46,70]; in every other case with a
  non-empty section name it returns the tag of the first keyword rule, in the fixed
  order, one of whose keywords occurs in the lower-cased trimmed name, and null when no
  rule does; "Quantitative Reasoning" resolves to MATH whatever the number; a missing
  or empty section name and a missing number give null. The function is total: no
  input makes it raise.
\<close>

theorem getTagForQuestion_resolves:
  "(js_trim s = ''Section I'' \<and> 1 \<le> q \<and> q \<le> 30 \<longrightarrow>
      getTagForQuestion (Some s) (Some q) = Some ''MATH'')
 \<and> (js_trim s = ''Section I'' \<and> 31 \<le> q \<and> q \<le> 60 \<longrightarrow>
      getTagForQuestion (Some s) (Some q) = Some ''GI'')
 \<and> (js_trim s = ''Section II'' \<and> 1 \<le> q \<and> q \<le> 45 \<longrightarrow>
      getTagForQuestion (Some s) (Some q) = Some ''ENG'')
 \<and> (js_trim s = ''Section II'' \<and> 46 \<le> q \<and> q \<le> 70 \<longrightarrow>
      getTagForQuestion (Some s) (Some q) = Some ''GK'')
 \<and> (s \<noteq> [] \<and> reserved_tag (js_trim s) q = None \<longrightarrow>
      getTagForQuestion (Some s) (Some q) = first_rule keyword_rules (js_trim s))
 \<and> getTagForQuestion (Some ''Quantitative Reasoning'') (Some q) = Some ''MATH''
 \<and> getTagForQuestion None n = None
 \<and> getTagForQuestion (Some []) n = None
 \<and> getTagForQuestion x None = None"
proof (intro conjI impI)
  show "getTagForQuestion (Some s) (Some q) = Some ''MATH''"
    if "js_trim s = ''Section I'' \<and> 1 \<le> q \<and> q \<le> 30"
    using that by (auto simp: getTagForQuestion_def js_trim_Nil)
  show "getTagForQuestion (Some s) (Some q) = Some ''GI''"
    if "js_trim s = ''Section I'' \<and> 31 \<le> q \<and> q \<le> 60"
    using that by (auto simp: getTagForQuestion_def js_trim_Nil)
  show "getTagForQuestion (Some s) (Some q) = Some ''ENG''"
    if "js_trim s = ''Section II'' \<and> 1 \<le> q \<and> q \<le> 45"
    using that by (auto simp: getTagForQuestion_def js_trim_Nil)
  show "getTagForQuestion (Some s) (Some q) = Some ''GK''"
    if "js_trim s = ''Section II'' \<and> 46 \<le> q \<and> q \<le> 70"
    using that by (auto simp: getTagForQuestion_def js_trim_Nil)
  show "getTagForQuestion (Some s) (Some q) = first_rule keyword_rules (js_trim s)"
    if "s \<noteq> [] \<and> reserved_tag (js_trim s) q = None"
    using that by (rule getTagForQuestion_keywords)
  show "getTagForQuestion (Some ''Quantitative Reasoning'') (Some q) = Some ''MATH''"
    by (simp add: getTagForQuestion_def qr_trim qr_lower)
  show "getTagForQuestion None n = None"
    by (simp add: getTagForQuestion_def)
  show "getTagForQuestion (Some []) n = None"
    by (simp add: getTagForQuestion_def split: option.splits)
  show "getTagForQuestion x None = None"
    by (simp add: getTagForQuestion_def split: option.splits)
qed

lemma trim_padded_section: "js_trim '' Section I  '' = ''Section I''"
  by (simp add: js_trim_def is_space_def)

lemma trim_section_two: "js_trim ''Section II'' = ''Section II''"
  by (simp add: js_trim_def is_space_def)

lemma trim_awareness: "js_trim ''General Awareness'' = ''General Awareness''"
  by (simp add: js_trim_def is_space_def)

lemma rule_awareness: "first_rule keyword_rules ''General Awareness'' = Some ''GK''"
  by code_simp

lemma trim_physics: "js_trim ''Physics'' = ''Physics''"
  by (simp add: js_trim_def is_space_def)

lemma rule_physics: "first_rule keyword_rules ''Physics'' = None"
  by code_simp

theorem getTagForQuestion_resolves_witness:
  "getTagForQuestion (Some '' Section I  '') (Some 30) = Some ''MATH''
 \<and> getTagForQuestion (Some '' Section I  '') (Some 31) = Some ''GI''
 \<and> getTagForQuestion (Some ''Section II'') (Some 45) = Some ''ENG''
 \<and> getTagForQuestion (Some ''Section II'') (Some 46) = Some ''GK''
 \<and> getTagForQuestion (Some ''General Awareness'') (Some 7) = Some ''GK''
 \<and> getTagForQuestion (Some ''Physics'') (Some 7) = None"
  using getTagForQuestion_resolves [of "'' Section I  ''" 30]
    getTagForQuestion_resolves [of "'' Section I  ''" 31]
    getTagForQuestion_resolves [of "''Section II''" 45]
    getTagForQuestion_resolves [of "''Section II''" 46]
    getTagForQuestion_resolves [of "''General Awareness''" 7]
    getTagForQuestion_resolves [of "''Physics''" 7]
  by (simp add: trim_padded_section trim_section_two trim_awareness rule_awareness
        trim_physics rule_physics reserved_tag_def)

lemma getTagForQuestion_v2_eq: "getTagForQuestion_v2 sn qn = getTagForQuestion sn qn"
  unfolding getTagForQuestion_v2_def getTagForQuestion_def by (rule refl)

section \<open>Properties of the sanitizer\<close>

lemma sanitizer_empty_input:
  "transformAndSanitizeHtml L None = Inr []" "transformAndSanitizeHtml L (Some []) = Inr []"
  by (simp_all add: transformAndSanitizeHtml_def)

lemma sanitizer_throws_iff:
  "transformAndSanitizeHtml L (Some html) = Inl TypeError
     \<longleftrightarrow> html \<noteq> [] \<and> domPasses L html = Inl TypeError"
  by (auto simp: transformAndSanitizeHtml_def Let_def split: sum.splits)

lemma sanitizer_minify_fallback:
  assumes "html \<noteq> []" and "domPasses L html = Inr doc"
    and "minify L (stringPasses (toHtml L (plain doc))) = None"
  shows "transformAndSanitizeHtml L (Some html)
           = Inr (js_trim (stringPasses (toHtml L (plain doc))))"
  using assms by (simp add: transformAndSanitizeHtml_def minifyHtml_def Let_def js_trim_Nil)

lemma paragraph_fallback:
  "transformAndSanitizeHtml paragraph_libs (Some ''<p> a </p>'') = Inr ''a''"
  by code_simp

text \<open>
  Claim C7. The sanitizer should return the empty string for a missing or empty input,
  never throw, and fall back to the output of the string passes when the minifier
  fails. The first and the last hold of the code (the lemmas above). It does throw,
  though: for an empty font element (or an empty \<open>span.math-tex\<close>) the unwrapping loop
  calls \<open>replaceWith('')\<close>, which leaves the \<open>next\<close> and \<open>prev\<close> properties of the
  neighbours \<open>undefined\<close>, and when a neighbour is a table (or a \<open>br\<close>, text or comment
  between the place and a table), \<open>$(table).next()\<close> or \<open>$(table).prev()\<close> in the loop
  over the tables throws a \<open>TypeError\<close>. Evaluated here on the fragment
  \<open><table><tbody><tr><td>1</td></tr></tbody></table><font></font>\<close>: the promise is
  rejected.
\<close>

theorem sanitizer_throws_on_table_and_empty_font:
  "render table_and_font
     = ''<table><tbody><tr><td>1</td></tr></tbody></table><font></font>''
 \<and> transformAndSanitizeHtml table_font_libs
       (Some ''<table><tbody><tr><td>1</td></tr></tbody></table><font></font>'')
     = Inl TypeError"
  by code_simp

text \<open>
  Claim C8. Sanitizing the sanitizer's output should change nothing but white space. The
  code does not achieve this for a font element inside a font element: the loop that
  unwraps font elements visits the outer one first and replaces it by its inner HTML,
  parsed anew, so the inner font element it visits next is no longer part of the
  document and a font element stays in the output. A second pass unwraps it. Evaluated
  here: \<open><font><font>x</font></font>\<close> sanitizes to \<open><font>x</font>\<close>, which
  sanitizes to \<open>x\<close>, and the two differ in more than white space.
\<close>

theorem sanitizer_second_pass_unwraps_font:
  "transformAndSanitizeHtml nested_font_libs (Some ''<font><font>x</font></font>'')
     = Inr ''<font>x</font>''
 \<and> (case transformAndSanitizeHtml nested_font_libs (Some ''<font><font>x</font></font>'') of
       Inr once \<Rightarrow> transformAndSanitizeHtml nested_font_libs (Some once)
     | Inl e \<Rightarrow> Inl e) = Inr ''x''
 \<and> \<not> equal_up_to_space ''x'' ''<font>x</font>''"
  by code_simp

section \<open>Properties of the question extraction\<close>

lemma promise_all_Inr: "promise_all xs = Inr vs \<Longrightarrow> xs = map Inr vs"
  by (induction xs arbitrary: vs) (auto split: sum.splits)

lemma fulfilled_strings:
  "map f ys = map Inr vs \<Longrightarrow>
     vs = map (\<lambda>y. case f y of Inr v \<Rightarrow> v | Inl e \<Rightarrow> d) ys
     \<and> list_all (\<lambda>y. f y = Inr (case f y of Inr v \<Rightarrow> v | Inl e \<Rightarrow> d)) ys"
  by (induction ys arbitrary: vs) auto

lemma scrape_shape:
  assumes "scrapeSingleQuestionPage L s html fc n sl = Some r"
  shows "\<exists>opts.
           promise_all (map (option_result L s html) (page_options L s html)) = Inr opts
           \<and> opts \<noteq> []
           \<and> select (parseDocument L html) (activeQuestionContainer s) \<noteq> []
           \<and> Question r \<noteq> []
           \<and> OP1 r = or_null opts 0 \<and> OP2 r = or_null opts 1
           \<and> OP3 r = or_null opts 2 \<and> OP4 r = or_null opts 3
           \<and> Answer r = (if index_of_first (marked_options L s html) \<noteq> - 1
                           then index_of_first (marked_options L s html) + 1 else 0)
           \<and> noteId r = n \<and> SL r = sl"
  using assms
  unfolding scrapeSingleQuestionPage_def page_options_def option_result_def
    marked_options_def Let_def
  by (auto split: if_splits sum.splits simp: comp_def)

lemma scrape_Some:
  assumes "scrapeSingleQuestionPage L s html fc n sl = Some r"
  shows "Question r \<noteq> []"
    and "select (parseDocument L html) (activeQuestionContainer s) \<noteq> []"
    and "page_options L s html \<noteq> []"
    and "OP1 r = or_null (map (sanitized_option L s html) (page_options L s html)) 0"
    and "OP2 r = or_null (map (sanitized_option L s html) (page_options L s html)) 1"
    and "OP3 r = or_null (map (sanitized_option L s html) (page_options L s html)) 2"
    and "OP4 r = or_null (map (sanitized_option L s html) (page_options L s html)) 3"
    and "Answer r = (if index_of_first (marked_options L s html) \<noteq> - 1
                     then index_of_first (marked_options L s html) + 1 else 0)"
    and "noteId r = n" and "SL r = sl"
    and "list_all (\<lambda>e. option_result L s html e = Inr (sanitized_option L s html e))
           (page_options L s html)"
proof -
  from scrape_shape [OF assms] obtain opts where
    pa: "promise_all (map (option_result L s html) (page_options L s html)) = Inr opts"
    and ne: "opts \<noteq> []"
    and sel: "select (parseDocument L html) (activeQuestionContainer s) \<noteq> []"
    and qn: "Question r \<noteq> []"
    and ops: "OP1 r = or_null opts 0" "OP2 r = or_null opts 1"
      "OP3 r = or_null opts 2" "OP4 r = or_null opts 3"
    and ans: "Answer r = (if index_of_first (marked_options L s html) \<noteq> - 1
                          then index_of_first (marked_options L s html) + 1 else 0)"
    and ids: "noteId r = n" "SL r = sl"
    by blast
  from promise_all_Inr [OF pa]
  have m: "map (option_result L s html) (page_options L s html) = map Inr opts" .
  from fulfilled_strings [OF m, of "[]"]
  have opts: "opts = map (sanitized_option L s html) (page_options L s html)"
    and all: "list_all (\<lambda>e. option_result L s html e = Inr (sanitized_option L s html e))
           (page_options L s html)"
    unfolding sanitized_option_def by simp_all
  show "Question r \<noteq> []" by (rule qn)
  show "select (parseDocument L html) (activeQuestionContainer s) \<noteq> []" by (rule sel)
  show "page_options L s html \<noteq> []" using ne opts by auto
  show "OP1 r = or_null (map (sanitized_option L s html) (page_options L s html)) 0"
    and "OP2 r = or_null (map (sanitized_option L s html) (page_options L s html)) 1"
    and "OP3 r = or_null (map (sanitized_option L s html) (page_options L s html)) 2"
    and "OP4 r = or_null (map (sanitized_option L s html) (page_options L s html)) 3"
    using ops opts by simp_all
  show "Answer r = (if index_of_first (marked_options L s html) \<noteq> - 1
                     then index_of_first (marked_options L s html) + 1 else 0)"
    by (rule ans)
  show "noteId r = n" and "SL r = sl" by (rule ids)+
  show "list_all (\<lambda>e. option_result L s html e = Inr (sanitized_option L s html e))
           (page_options L s html)"
    by (rule all)
qed

lemma scrape_None:
  assumes "page_options L s html = []"
  shows "scrapeSingleQuestionPage L s html fc n sl = None"
  using assms
  unfolding scrapeSingleQuestionPage_def page_options_def Let_def
  by (simp split: sum.splits)

lemma table_question_rejected:
  "scrapeSingleQuestionPage (known_libs [table_question_page, table_and_font])
     class_selectors (render table_question_page) 3 1002 1 = None"
  by code_simp

lemma four_option_scrape:
  "scrapeSingleQuestionPage (known_libs [four_option_page]) class_selectors
     (render four_option_page) 3 1002 1 = Some (sample_record 1002 1)"
  by code_simp

lemma empty_option_scrape:
  "scrapeSingleQuestionPage (known_libs [empty_option_page]) class_selectors
     (render empty_option_page) 3 1002 1
   = Some \<lparr>noteId = 1002, SL = 1, Question = ''What is 2 + 2?'', OP1 = None,
       OP2 = None, OP3 = None, OP4 = None, Answer = 0,
       Solution = ''See the key.'', Tags = [''MATH'']\<rparr>"
  by code_simp

lemma five_option_scrape:
  "scrapeSingleQuestionPage (known_libs [five_option_page]) class_selectors
     (render five_option_page) 3 1002 1
   = Some \<lparr>noteId = 1002, SL = 1, Question = ''What is 2 + 2?'', OP1 = Some ''1'',
       OP2 = Some ''2'', OP3 = Some ''3'', OP4 = Some ''5'', Answer = 5,
       Solution = ''See the key.'', Tags = [''MATH'']\<rparr>"
  by code_simp

text \<open>
  Claim C1, as stated: every record that the extraction returns has a non-empty question
  and at least one non-null option. This fails: the guard of the code counts the option
  containers (\<open>sanitizedOptions.length === 0\<close>), not the options that sanitize to
  something. A page whose only option container has no text yields a record with
  OP1 to OP4 all null.
\<close>

theorem record_needs_option_counterexample:
  "\<not> (\<forall>L s html fc n sl r.
        scrapeSingleQuestionPage L s html fc n sl = Some r \<longrightarrow>
        Question r \<noteq> [] \<and> (OP1 r \<noteq> None \<or> OP2 r \<noteq> None \<or> OP3 r \<noteq> None \<or> OP4 r \<noteq> None))"
proof
  assume "\<forall>L s html fc n sl r.
        scrapeSingleQuestionPage L s html fc n sl = Some r \<longrightarrow>
        Question r \<noteq> [] \<and> (OP1 r \<noteq> None \<or> OP2 r \<noteq> None \<or> OP3 r \<noteq> None \<or> OP4 r \<noteq> None)"
  from this empty_option_scrape
  have "OP1 \<lparr>noteId = 1002, SL = 1, Question = ''What is 2 + 2?'', OP1 = None,
       OP2 = None, OP3 = None, OP4 = None, Answer = 0,
       Solution = ''See the key.'', Tags = [''MATH'']\<rparr> \<noteq> None
     \<or> OP2 \<lparr>noteId = 1002, SL = 1, Question = ''What is 2 + 2?'', OP1 = None,
       OP2 = None, OP3 = None, OP4 = None, Answer = 0,
       Solution = ''See the key.'', Tags = [''MATH'']\<rparr> \<noteq> None
     \<or> OP3 \<lparr>noteId = 1002, SL = 1, Question = ''What is 2 + 2?'', OP1 = None,
       OP2 = None, OP3 = None, OP4 = None, Answer = 0,
       Solution = ''See the key.'', Tags = [''MATH'']\<rparr> \<noteq> None
     \<or> OP4 \<lparr>noteId = 1002, SL = 1, Question = ''What is 2 + 2?'', OP1 = None,
       OP2 = None, OP3 = None, OP4 = None, Answer = 0,
       Solution = ''See the key.'', Tags = [''MATH'']\<rparr> \<noteq> None"
    by blast
  then show False by simp
qed

text \<open>
  Claim C1, amended: every record that the extraction returns has a non-empty question,
  and its snapshot has at least one option container inside the active question
  container; each of OP1 to OP4 is null exactly when the container at that position is
  missing or its text sanitizes to the empty string. A snapshot without an option
  container is rejected with null.
\<close>

theorem record_has_question_and_option_container:
  "(scrapeSingleQuestionPage L s html fc n sl = Some r \<longrightarrow>
      Question r \<noteq> []
      \<and> page_options L s html \<noteq> []
      \<and> OP1 r = or_null (map (sanitized_option L s html) (page_options L s html)) 0
      \<and> OP2 r = or_null (map (sanitized_option L s html) (page_options L s html)) 1
      \<and> OP3 r = or_null (map (sanitized_option L s html) (page_options L s html)) 2
      \<and> OP4 r = or_null (map (sanitized_option L s html) (page_options L s html)) 3
      \<and> list_all (\<lambda>e. option_result L s html e = Inr (sanitized_option L s html e))
            (page_options L s html))
 \<and> (page_options L s html = [] \<longrightarrow> scrapeSingleQuestionPage L s html fc n sl = None)"
  using scrape_Some [of L s html fc n sl r] scrape_None [of L s html fc n sl]
  by blast

lemma no_option_page_options:
  "page_options (known_libs [no_option_page]) class_selectors (render no_option_page) = []"
  by code_simp

theorem record_has_question_and_option_container_witness:
  "scrapeSingleQuestionPage (known_libs [four_option_page]) class_selectors
     (render four_option_page) 3 1002 1 = Some (sample_record 1002 1)
 \<and> Question (sample_record 1002 1) \<noteq> []
 \<and> page_options (known_libs [four_option_page]) class_selectors (render four_option_page)
       \<noteq> []
 \<and> page_options (known_libs [no_option_page]) class_selectors (render no_option_page) = []
 \<and> scrapeSingleQuestionPage (known_libs [no_option_page]) class_selectors
       (render no_option_page) 3 1002 1 = None"
  using record_has_question_and_option_container
    [of "known_libs [four_option_page]" class_selectors "render four_option_page" 3 1002 1
      "sample_record 1002 1"]
    record_has_question_and_option_container
    [of "known_libs [no_option_page]" class_selectors "render no_option_page" 3 1002 1
      "sample_record 1002 1"]
    four_option_scrape no_option_page_options
  by blast

lemma first_marked_position:
  assumes "map fst xs = map (\<lambda>i. pp @ [i]) [0..<length xs]"
    and "filter P xs = e # es"
  shows "last (fst e) = length (takeWhile (\<lambda>x. \<not> P x) xs)"
proof -
  from assms(2) obtain us vs where xs: "xs = us @ e # vs"
    and us: "\<forall>u\<in>set us. \<not> P u" and e: "P e"
    by (auto simp: filter_eq_Cons_iff)
  have tw: "takeWhile (\<lambda>x. \<not> P x) xs = us"
    using us e by (simp add: xs takeWhile_append2)
  have "length us < length xs" by (simp add: xs)
  have "fst e = map fst xs ! length us" by (simp add: xs nth_append)
  also have "\<dots> = pp @ [length us]"
    using \<open>length us < length xs\<close> by (simp only: assms(1)) simp
  finally show ?thesis by (simp add: tw)
qed

lemma takeWhile_lt_length:
  "filter P xs \<noteq> [] \<Longrightarrow> length (takeWhile (\<lambda>x. \<not> P x) xs) < length xs"
  by (induction xs) auto

text \<open>
  Claim C4, as stated: the Answer of every record is in {0,1,2,3,4}. This fails: the
  code returns the index plus one without a bound, and only the first four options fill
  OP1 to OP4. With five option containers of which the fifth carries the marker the
  Answer is 5.
\<close>

theorem answer_in_range_counterexample:
  "\<not> (\<forall>L s html fc n sl r.
        scrapeSingleQuestionPage L s html fc n sl = Some r \<longrightarrow> Answer r \<in> {0, 1, 2, 3, 4})"
proof
  assume "\<forall>L s html fc n sl r.
        scrapeSingleQuestionPage L s html fc n sl = Some r \<longrightarrow> Answer r \<in> {0, 1, 2, 3, 4}"
  from this five_option_scrape
  have "Answer \<lparr>noteId = 1002, SL = 1, Question = ''What is 2 + 2?'', OP1 = Some ''1'',
       OP2 = Some ''2'', OP3 = Some ''3'', OP4 = Some ''5'', Answer = 5,
       Solution = ''See the key.'', Tags = [''MATH'']\<rparr> \<in> {0, 1, 2, 3, 4}"
    by blast
  then show False by simp
qed

text \<open>
  Claim C4, amended: the Answer of a record is 0 when no option container carries the
  marker class; otherwise it is 1 plus the position that the first marked option
  container has among the element children of its parent, a number that is not bounded
  by 4. When the option containers are the leading element children of one parent,
  that position is the 0-based position among the option containers, and with at most
  four containers the Answer then is in {0,1,2,3,4}.
\<close>

theorem answer_is_position_of_first_marked:
  "scrapeSingleQuestionPage L s html fc n sl = Some r \<longrightarrow>
     0 \<le> Answer r
     \<and> (marked_options L s html = [] \<longrightarrow> Answer r = 0)
     \<and> (marked_options L s html \<noteq> [] \<longrightarrow>
          Answer r = 1 + int (last (fst (hd (marked_options L s html)))))
     \<and> (map fst (page_options L s html)
            = map (\<lambda>i. pp @ [i]) [0..<length (page_options L s html)]
          \<and> marked_options L s html \<noteq> [] \<longrightarrow>
          Answer r = 1 + int (length (takeWhile
                        (\<lambda>e. \<not> has_class (correctOptionClass s) (snd e))
                        (page_options L s html))))
     \<and> (map fst (page_options L s html)
            = map (\<lambda>i. pp @ [i]) [0..<length (page_options L s html)]
          \<and> length (page_options L s html) \<le> 4 \<longrightarrow>
          Answer r \<in> {0, 1, 2, 3, 4})"
proof
  assume some: "scrapeSingleQuestionPage L s html fc n sl = Some r"
  let ?opts = "page_options L s html"
  let ?P = "\<lambda>e. has_class (correctOptionClass s) (snd e)"
  let ?marked = "marked_options L s html"
  have ans: "Answer r = (if index_of_first ?marked \<noteq> - 1
                          then index_of_first ?marked + 1 else 0)"
    by (rule scrape_Some(8) [OF some])
  have none: "Answer r = 0" if "?marked = []"
    using that ans by (simp add: index_of_first_def)
  have first: "Answer r = 1 + int (last (fst (hd ?marked)))" if "?marked \<noteq> []"
    using that ans by (cases ?marked) (simp_all add: index_of_first_def)
  have pos: "Answer r = 1 + int (length (takeWhile (\<lambda>e. \<not> ?P e) ?opts))"
    if paths: "map fst ?opts = map (\<lambda>i. pp @ [i]) [0..<length ?opts]"
      and m: "?marked \<noteq> []"
  proof -
    from m obtain e es where ees: "filter ?P ?opts = e # es"
      by (cases ?marked) (simp_all add: marked_options_def)
    have "last (fst e) = length (takeWhile (\<lambda>e. \<not> ?P e) ?opts)"
      by (rule first_marked_position [OF paths ees])
    moreover have "hd ?marked = e"
      using ees by (simp add: marked_options_def)
    ultimately show ?thesis using first [OF m] by simp
  qed
  have range: "Answer r \<in> {0, 1, 2, 3, 4}"
    if paths: "map fst ?opts = map (\<lambda>i. pp @ [i]) [0..<length ?opts]"
      and le: "length ?opts \<le> 4"
  proof (cases "?marked = []")
    case True
    then show ?thesis using none by simp
  next
    case False
    then have "filter ?P ?opts \<noteq> []" by (simp add: marked_options_def)
    then have "length (takeWhile (\<lambda>e. \<not> ?P e) ?opts) < length ?opts"
      by (rule takeWhile_lt_length)
    with le have "length (takeWhile (\<lambda>e. \<not> ?P e) ?opts) < 4" by simp
    moreover have "Answer r = 1 + int (length (takeWhile (\<lambda>e. \<not> ?P e) ?opts))"
      by (rule pos [OF paths False])
    ultimately have "Answer r = 1 \<or> Answer r = 2 \<or> Answer r = 3 \<or> Answer r = 4"
      by presburger
    then show ?thesis by auto
  qed
  have nonneg: "0 \<le> Answer r"
    using none first by (cases "?marked = []") simp_all
  from nonneg none first pos range
  show "0 \<le> Answer r
     \<and> (?marked = [] \<longrightarrow> Answer r = 0)
     \<and> (?marked \<noteq> [] \<longrightarrow> Answer r = 1 + int (last (fst (hd ?marked))))
     \<and> (map fst ?opts = map (\<lambda>i. pp @ [i]) [0..<length ?opts] \<and> ?marked \<noteq> [] \<longrightarrow>
          Answer r = 1 + int (length (takeWhile (\<lambda>e. \<not> ?P e) ?opts)))
     \<and> (map fst ?opts = map (\<lambda>i. pp @ [i]) [0..<length ?opts] \<and> length ?opts \<le> 4 \<longrightarrow>
          Answer r \<in> {0, 1, 2, 3, 4})"
    by blast
qed

lemma four_option_paths:
  "map fst (page_options (known_libs [four_option_page]) class_selectors
              (render four_option_page))
     = map (\<lambda>i. [0, 1, 1, 2] @ [i])
         [0..<length (page_options (known_libs [four_option_page]) class_selectors
                        (render four_option_page))]"
  by code_simp

lemma four_option_marked:
  "marked_options (known_libs [four_option_page]) class_selectors (render four_option_page)
     \<noteq> []"
  by code_simp

lemma four_option_position:
  "length (takeWhile (\<lambda>e. \<not> has_class (correctOptionClass class_selectors) (snd e))
     (page_options (known_libs [four_option_page]) class_selectors
        (render four_option_page))) = 2"
  by code_simp

lemma four_option_count:
  "length (page_options (known_libs [four_option_page]) class_selectors
     (render four_option_page)) \<le> 4"
  by code_simp

lemma empty_option_unmarked:
  "marked_options (known_libs [empty_option_page]) class_selectors (render empty_option_page)
     = []"
  by code_simp

lemma empty_option_record:
  "scrapeSingleQuestionPage (known_libs [empty_option_page]) class_selectors
     (render empty_option_page) 3 1002 1
   = Some ((sample_record 1002 1)
       \<lparr>OP1 := None, OP2 := None, OP3 := None, OP4 := None, Answer := 0\<rparr>)"
  by code_simp

theorem answer_is_position_of_first_marked_witness:
  "scrapeSingleQuestionPage (known_libs [four_option_page]) class_selectors
     (render four_option_page) 3 1002 1 = Some (sample_record 1002 1)
 \<and> marked_options (known_libs [four_option_page]) class_selectors (render four_option_page)
       \<noteq> []
 \<and> length (takeWhile (\<lambda>e. \<not> has_class (correctOptionClass class_selectors) (snd e))
       (page_options (known_libs [four_option_page]) class_selectors
          (render four_option_page))) = 2
 \<and> Answer (sample_record 1002 1)
     = 1 + int (length (takeWhile
          (\<lambda>e. \<not> has_class (correctOptionClass class_selectors) (snd e))
          (page_options (known_libs [four_option_page]) class_selectors
             (render four_option_page))))
 \<and> Answer (sample_record 1002 1) \<in> {0, 1, 2, 3, 4}
 \<and> marked_options (known_libs [empty_option_page]) class_selectors
       (render empty_option_page) = []
 \<and> Answer ((sample_record 1002 1)
       \<lparr>OP1 := None, OP2 := None, OP3 := None, OP4 := None, Answer := 0\<rparr>) = 0"
  using answer_is_position_of_first_marked
    [of "known_libs [four_option_page]" class_selectors "render four_option_page" 3 1002 1
      "sample_record 1002 1" "[0, 1, 1, 2]"]
    answer_is_position_of_first_marked
    [of "known_libs [empty_option_page]" class_selectors "render empty_option_page" 3 1002 1
      "(sample_record 1002 1)
         \<lparr>OP1 := None, OP2 := None, OP3 := None, OP4 := None, Answer := 0\<rparr>" "[]"]
    four_option_scrape four_option_paths four_option_marked four_option_count
    four_option_position empty_option_unmarked empty_option_record
  by blast

lemma scrape_v2_eq:
  "scrapeSingleQuestionPage_v2 L s html fc n sl = scrapeSingleQuestionPage L s html fc n sl"
  unfolding scrapeSingleQuestionPage_v2_def scrapeSingleQuestionPage_def
  by (simp add: getTagForQuestion_v2_eq Let_def split: option.splits sum.splits)

text \<open>
  Claim C10. The two variants of the scraper have the same extraction core: their tag
  resolvers return the same tag for every section name and number, and their
  extraction functions return the same record, or both null, for every snapshot,
  fallback counter, note id and serial number.
\<close>

theorem scraper_variants_agree:
  "getTagForQuestion_v2 sn qn = getTagForQuestion sn qn
 \<and> scrapeSingleQuestionPage_v2 L s html fc n sl = scrapeSingleQuestionPage L s html fc n sl"
  by (simp add: getTagForQuestion_v2_eq scrape_v2_eq)

theorem scraper_variants_agree_witness:
  "getTagForQuestion_v2 (Some ''English Language'') (Some 3) = Some ''ENG''
 \<and> scrapeSingleQuestionPage_v2 (known_libs [four_option_page]) class_selectors
       (render four_option_page) 3 1002 1
     = Some (sample_record 1002 1)"
proof -
  have "getTagForQuestion (Some ''English Language'') (Some 3) = Some ''ENG''"
    by code_simp
  then show ?thesis
    using scraper_variants_agree [of "Some ''English Language''" "Some 3"
        "known_libs [four_option_page]" class_selectors "render four_option_page" 3 1002 1]
      four_option_scrape
    by simp
qed

section \<open>Properties of the link validator\<close>

lemma validateEntry_status:
  "Status (validateEntry fs e) =
     (if Status e = ''COMPLETED'' \<and> File e \<noteq> None \<and> File e \<noteq> Some []
         \<and> \<not> fileExists fs (the (File e))
      then ''PENDING'' else Status e)"
  by (simp add: validateEntry_def split: option.splits)

lemma fileExists_iff:
  "fileExists fs name \<longleftrightarrow>
     access fs (path_join scrapedDir name) \<or> access fs (path_join taggedDir name)"
  by (simp add: fileExists_def Let_def)

lemma trailing_separator_needs_directory:
  "fileExists disk_after_run ''Exam.json'' \<and> \<not> fileExists disk_after_run ''Exam.json/''"
  by code_simp

lemma validateLinks_length: "length (validateLinks fs links) = length links"
  by (simp add: validateLinks_def)

text \<open>
  Claim C9. The validator should keep a COMPLETED task whose recorded output file exists
  and demote it to PENDING otherwise. On the code this fails for the very file names
  the batch driver records: the driver stores the path relative to the project root
  (\<open>output/scraped/Exam.json\<close>), and the validator joins that path onto the two output
  directories again, so it looks for \<open>output/scraped/output/scraped/Exam.json\<close> and
  \<open>output/tagged/output/scraped/Exam.json\<close>. Evaluated here: the output file of a task
  the driver has just marked COMPLETED exists at the recorded path, and the validator
  demotes the task to PENDING (and clears its \<open>File\<close>).
\<close>

theorem validator_demotes_existing_output:
  "recordSuccess pending_task (Some ''Exam.json'')
     = \<lparr>Link = ''https://example.org/a'', Status = ''COMPLETED'',
        File = Some ''output/scraped/Exam.json''\<rparr>
 \<and> access disk_after_run (path_join [] ''output/scraped/Exam.json'')
 \<and> validateEntry disk_after_run (recordSuccess pending_task (Some ''Exam.json''))
     = \<lparr>Link = ''https://example.org/a'', Status = ''PENDING'', File = Some ''''\<rparr>"
  by code_simp

section \<open>Properties of the harvesting loop\<close>

lemma with_common_tag_fields [simp]:
  "SL (with_common_tag tag d) = SL d" "noteId (with_common_tag tag d) = noteId d"
  by (simp_all add: with_common_tag_def split: option.splits)

lemma collect_None [simp]: "collect tag st None = st"
  by (simp add: collect_def)

lemma collect_Some:
  "collect tag st (Some d) =
     st\<lparr>allQuestionsData := allQuestionsData st @ [with_common_tag tag d],
        serialNumberCounter := serialNumberCounter st + 1\<rparr>"
  by (simp add: collect_def)

lemma serials_collect:
  assumes "serials_from_one st"
    and "\<And>d. c = Some d \<Longrightarrow> SL d = serialNumberCounter st"
  shows "serials_from_one (collect tag st c)"
proof (cases c)
  case None
  then show ?thesis using assms(1) by simp
next
  case (Some d)
  with assms(2) have "SL d = serialNumberCounter st" by simp
  with assms(1) show ?thesis
    by (simp add: Some collect_Some serials_from_one_def)
qed

lemma serials_advance [simp]: "serials_from_one (advance st) = serials_from_one st"
  by (simp add: serials_from_one_def advance_def)

lemma scrape_SL:
  "scrapeSingleQuestionPage L s html fc n sl = Some d \<Longrightarrow> SL d = sl"
  by (rule scrape_Some(10))

lemma scrape_v2_SL:
  "scrapeSingleQuestionPage_v2 L s html fc n sl = Some d \<Longrightarrow> SL d = sl"
  by (simp add: scrape_v2_eq scrape_SL)

lemma harvestLoop_serials:
  "serials_from_one st \<Longrightarrow> harvestLoop L s limit tag st ps = Some (e, st', rest)
     \<Longrightarrow> serials_from_one st'"
proof (induction ps arbitrary: st)
  case Nil
  then show ?case by simp
next
  case (Cons p ps)
  let ?st1 = "collect tag st (scrapeSingleQuestionPage L s (snapshot p)
                (questionCounter st) (noteIdCounter st) (serialNumberCounter st))"
  have inv1: "serials_from_one ?st1"
    by (rule serials_collect [OF Cons.prems(1)]) (rule scrape_SL)
  show ?case
  proof (cases "limit_reached limit ?st1 \<or> \<not> nextExists p \<or> reachedEnd p")
    case True
    with Cons.prems(2) inv1 show ?thesis
      by (auto simp: Let_def split: if_splits)
  next
    case False
    with Cons.prems(2) have "harvestLoop L s limit tag (advance ?st1) ps = Some (e, st', rest)"
      by (simp add: Let_def)
    with Cons.IH [of "advance ?st1"] inv1 show ?thesis by simp
  qed
qed

lemma harvestLoop_v2_serials:
  "serials_from_one st \<Longrightarrow> harvestLoop_v2 L s limit tag st ps = Some (e, st', rest)
     \<Longrightarrow> serials_from_one st'"
proof (induction ps arbitrary: st)
  case Nil
  then show ?case by simp
next
  case (Cons p ps)
  let ?st1 = "collect tag st (scrapeSingleQuestionPage_v2 L s (snapshot p)
                (questionCounter st) (noteIdCounter st) (serialNumberCounter st))"
  have inv1: "serials_from_one ?st1"
    by (rule serials_collect [OF Cons.prems(1)]) (rule scrape_v2_SL)
  show ?case
  proof (cases "\<not> viewSolutionPresent p \<or> limit_reached limit ?st1 \<or> \<not> nextExists p
                 \<or> reachedEnd p")
    case True
    with Cons.prems inv1 show ?thesis
      by (auto simp: Let_def split: if_splits)
  next
    case False
    with Cons.prems(2)
    have "harvestLoop_v2 L s limit tag (advance ?st1) ps = Some (e, st', rest)"
      by (simp add: Let_def)
    with Cons.IH [of "advance ?st1"] inv1 show ?thesis by simp
  qed
qed

text \<open>The loop only appends to the collection.\<close>

lemma collect_extends:
  "\<exists>new. allQuestionsData (collect tag st c) = allQuestionsData st @ new"
  by (cases c) (simp_all add: collect_Some)

lemma harvestLoop_extends:
  "harvestLoop L s limit tag st ps = Some (e, st', rest)
     \<Longrightarrow> \<exists>new. allQuestionsData st' = allQuestionsData st @ new"
proof (induction ps arbitrary: st)
  case Nil
  then show ?case by simp
next
  case (Cons p ps)
  let ?st1 = "collect tag st (scrapeSingleQuestionPage L s (snapshot p)
                (questionCounter st) (noteIdCounter st) (serialNumberCounter st))"
  obtain new1 where n1: "allQuestionsData ?st1 = allQuestionsData st @ new1"
    using collect_extends by blast
  show ?case
  proof (cases "limit_reached limit ?st1 \<or> \<not> nextExists p \<or> reachedEnd p")
    case True
    with Cons.prems n1 show ?thesis
      by (auto simp: Let_def advance_def split: if_splits)
  next
    case False
    with Cons.prems have "harvestLoop L s limit tag (advance ?st1) ps = Some (e, st', rest)"
      by (simp add: Let_def)
    from Cons.IH [OF this] n1 show ?thesis by (auto simp: advance_def)
  qed
qed

lemma harvestLoop_v2_extends:
  "harvestLoop_v2 L s limit tag st ps = Some (e, st', rest)
     \<Longrightarrow> \<exists>new. allQuestionsData st' = allQuestionsData st @ new"
proof (induction ps arbitrary: st)
  case Nil
  then show ?case by simp
next
  case (Cons p ps)
  let ?st1 = "collect tag st (scrapeSingleQuestionPage_v2 L s (snapshot p)
                (questionCounter st) (noteIdCounter st) (serialNumberCounter st))"
  obtain new1 where n1: "allQuestionsData ?st1 = allQuestionsData st @ new1"
    using collect_extends by blast
  show ?case
  proof (cases "\<not> viewSolutionPresent p \<or> limit_reached limit ?st1 \<or> \<not> nextExists p
                 \<or> reachedEnd p")
    case True
    with Cons.prems n1 show ?thesis
      by (auto simp: Let_def advance_def split: if_splits)
  next
    case False
    with Cons.prems
    have "harvestLoop_v2 L s limit tag (advance ?st1) ps = Some (e, st', rest)"
      by (simp add: Let_def)
    from Cons.IH [OF this] n1 show ?thesis by (auto simp: advance_def)
  qed
qed

lemma serials_initial: "serials_from_one (initial_state skip)"
  by (simp add: serials_from_one_def initial_state_def)

lemma first_page_record:
  assumes run: "harvestLoop L s limit tag (initial_state skip) (p # ps) = Some (e, st, rest)"
    and r: "scrapeSingleQuestionPage L s (snapshot p) (skip + 1) (1000 + skip) 1 = Some r"
  shows "allQuestionsData st \<noteq> [] \<and> hd (allQuestionsData st) = with_common_tag tag r"
proof -
  let ?st1 = "collect tag (initial_state skip) (Some r)"
  have d1: "allQuestionsData ?st1 = [with_common_tag tag r]"
    by (simp add: collect_Some initial_state_def)
  have "\<exists>new. allQuestionsData st = allQuestionsData ?st1 @ new"
  proof (cases "limit_reached limit ?st1 \<or> \<not> nextExists p \<or> reachedEnd p")
    case True
    with run r show ?thesis
      by (auto simp: Let_def initial_state_def advance_def split: if_splits)
  next
    case False
    with run r have "harvestLoop L s limit tag (advance ?st1) ps = Some (e, st, rest)"
      by (simp add: Let_def initial_state_def)
    from harvestLoop_extends [OF this] show ?thesis by (simp add: advance_def)
  qed
  with d1 show ?thesis by auto
qed

lemma first_page_record_v2:
  assumes run: "harvestLoop_v2 L s limit tag (initial_state skip) (p # ps) = Some (e, st, rest)"
    and r: "scrapeSingleQuestionPage_v2 L s (snapshot p) (skip + 1) (1000 + skip) 1 = Some r"
    and v: "viewSolutionPresent p"
  shows "allQuestionsData st \<noteq> [] \<and> hd (allQuestionsData st) = with_common_tag tag r"
proof -
  let ?st1 = "collect tag (initial_state skip) (Some r)"
  have d1: "allQuestionsData ?st1 = [with_common_tag tag r]"
    by (simp add: collect_Some initial_state_def)
  have "\<exists>new. allQuestionsData st = allQuestionsData ?st1 @ new"
  proof (cases "limit_reached limit ?st1 \<or> \<not> nextExists p \<or> reachedEnd p")
    case True
    with run r v show ?thesis
      by (auto simp: Let_def initial_state_def advance_def split: if_splits)
  next
    case False
    with run r v have "harvestLoop_v2 L s limit tag (advance ?st1) ps = Some (e, st, rest)"
      by (simp add: Let_def initial_state_def)
    from harvestLoop_v2_extends [OF this] show ?thesis by (simp add: advance_def)
  qed
  with d1 show ?thesis by auto
qed

lemma main_written:
  assumes "main L s opts env = Some (code, ss)" and "written ss = Some (file, recs)"
  shows "\<exists>e st rest.
           harvestLoop L s (scrapeLimit opts) (commonTag opts)
             (initial_state (questionsToSkip opts)) (pages env) = Some (e, st, rest)
           \<and> recs = allQuestionsData st"
  using assms
  unfolding main_def try_body_def Let_def
  by (auto simp: start_session_def finally_block_def
        split: if_splits option.splits prod.splits body_end.splits)

lemma skipped_run:
  "harvestLoop sample_libs class_selectors None None (initial_state 2) skipped_pages
     = Some (NoNextButton, skipped_state, [])"
  by code_simp

lemma skipped_first_page:
  "scrapeSingleQuestionPage sample_libs class_selectors (snapshot (hd skipped_pages))
     (2 + 1) (1000 + 2) 1 = Some (sample_record 1002 1)"
  by code_simp

lemma skipped_records:
  "allQuestionsData skipped_state = [sample_record 1002 1, sample_record 1004 2]"
  by (simp add: skipped_state_def)

text \<open>
  Claim C5. Whatever the skip count, the limit and the pages: when the harvesting loop
  has ended, the collected records carry the serial numbers 1, 2, 3, ... in the order
  of collection and the serial counter is one ahead of their number; a page that does
  not parse leaves the state as it is and a page that parses advances the serial
  counter by one; if the first harvested page parses, the first record of the
  collection is the one extracted from it, with note id 1000 + skip and serial number
  1. This holds for the loop of both variants, and for the records that \<open>main\<close> writes.
\<close>

theorem serial_numbers_from_one:
  "(harvestLoop L s limit tag (initial_state skip) seen = Some (e, st, rest) \<longrightarrow>
      map SL (allQuestionsData st) = map int [1..<Suc (length (allQuestionsData st))]
      \<and> serialNumberCounter st = 1 + int (length (allQuestionsData st))
      \<and> (scrapeSingleQuestionPage L s (snapshot (hd seen)) (skip + 1) (1000 + skip) 1
            = Some r \<longrightarrow>
          allQuestionsData st \<noteq> []
          \<and> noteId (hd (allQuestionsData st)) = 1000 + skip
          \<and> SL (hd (allQuestionsData st)) = 1))
 \<and> (harvestLoop_v2 L s limit tag (initial_state skip) seen = Some (e, st, rest) \<longrightarrow>
      map SL (allQuestionsData st) = map int [1..<Suc (length (allQuestionsData st))]
      \<and> serialNumberCounter st = 1 + int (length (allQuestionsData st))
      \<and> (scrapeSingleQuestionPage_v2 L s (snapshot (hd seen)) (skip + 1) (1000 + skip) 1
            = Some r \<and> viewSolutionPresent (hd seen) \<longrightarrow>
          allQuestionsData st \<noteq> []
          \<and> noteId (hd (allQuestionsData st)) = 1000 + skip
          \<and> SL (hd (allQuestionsData st)) = 1))
 \<and> collect tag st0 None = st0
 \<and> serialNumberCounter (collect tag st0 (Some d)) = serialNumberCounter st0 + 1
 \<and> (main L s opts env = Some (code, ss) \<and> written ss = Some (file, recs) \<longrightarrow>
      map SL recs = map int [1..<Suc (length recs)])"
proof (intro conjI impI)
  assume run: "harvestLoop L s limit tag (initial_state skip) seen = Some (e, st, rest)"
  from harvestLoop_serials [OF serials_initial run]
  show "map SL (allQuestionsData st) = map int [1..<Suc (length (allQuestionsData st))]"
    and "serialNumberCounter st = 1 + int (length (allQuestionsData st))"
    by (simp_all add: serials_from_one_def)
  assume r: "scrapeSingleQuestionPage L s (snapshot (hd seen)) (skip + 1) (1000 + skip) 1
               = Some r"
  from run obtain p ps where seen: "seen = p # ps" by (cases seen) simp_all
  from first_page_record [of L s limit tag skip p ps e st rest r] run r
  have fr: "allQuestionsData st \<noteq> [] \<and> hd (allQuestionsData st) = with_common_tag tag r"
    by (simp add: seen)
  from scrape_Some(9,10) [OF r] have "noteId r = 1000 + skip" "SL r = 1" by simp_all
  with fr show "allQuestionsData st \<noteq> []"
    and "noteId (hd (allQuestionsData st)) = 1000 + skip"
    and "SL (hd (allQuestionsData st)) = 1"
    by simp_all
next
  assume run: "harvestLoop_v2 L s limit tag (initial_state skip) seen = Some (e, st, rest)"
  from harvestLoop_v2_serials [OF serials_initial run]
  show "map SL (allQuestionsData st) = map int [1..<Suc (length (allQuestionsData st))]"
    and "serialNumberCounter st = 1 + int (length (allQuestionsData st))"
    by (simp_all add: serials_from_one_def)
  assume rv: "scrapeSingleQuestionPage_v2 L s (snapshot (hd seen)) (skip + 1) (1000 + skip) 1
               = Some r \<and> viewSolutionPresent (hd seen)"
  from run obtain p ps where seen: "seen = p # ps" by (cases seen) simp_all
  from first_page_record_v2 [of L s limit tag skip p ps e st rest r] run rv
  have fr: "allQuestionsData st \<noteq> [] \<and> hd (allQuestionsData st) = with_common_tag tag r"
    by (simp add: seen)
  from rv have "scrapeSingleQuestionPage L s (snapshot (hd seen)) (skip + 1) (1000 + skip) 1
                  = Some r"
    by (simp add: scrape_v2_eq)
  from scrape_Some(9,10) [OF this] have "noteId r = 1000 + skip" "SL r = 1" by simp_all
  with fr show "allQuestionsData st \<noteq> []"
    and "noteId (hd (allQuestionsData st)) = 1000 + skip"
    and "SL (hd (allQuestionsData st)) = 1"
    by simp_all
next
  show "collect tag st0 None = st0" by simp
  show "serialNumberCounter (collect tag st0 (Some d)) = serialNumberCounter st0 + 1"
    by (simp add: collect_Some)
next
  assume m: "main L s opts env = Some (code, ss) \<and> written ss = Some (file, recs)"
  then obtain e' st' rest' where
    run: "harvestLoop L s (scrapeLimit opts) (commonTag opts)
            (initial_state (questionsToSkip opts)) (pages env) = Some (e', st', rest')"
    and recs: "recs = allQuestionsData st'"
    using main_written by blast
  from harvestLoop_serials [OF serials_initial run]
  show "map SL recs = map int [1..<Suc (length recs)]"
    by (simp add: serials_from_one_def recs)
qed

lemma skipped_run_v2:
  "harvestLoop_v2 sample_libs class_selectors None None (initial_state 2) skipped_pages
     = Some (NoNextButton, skipped_state, [])"
  by code_simp

lemma skipped_first_page_v2:
  "scrapeSingleQuestionPage_v2 sample_libs class_selectors (snapshot (hd skipped_pages))
     (2 + 1) (1000 + 2) 1 = Some (sample_record 1002 1)
   \<and> viewSolutionPresent (hd skipped_pages)"
  by code_simp

lemma sample_session_run:
  "main sample_libs class_selectors sample_cli sample_env = Some (0, sample_session)"
  by code_simp

lemma sample_session_written:
  "written sample_session
     = Some (''Mock Test - Paper 1.json'',
         [sample_record 1000 1, sample_record 1001 2, sample_record 1002 3])"
  by (simp add: sample_session_def)

theorem serial_numbers_from_one_witness:
  "harvestLoop sample_libs class_selectors None None (initial_state 2) skipped_pages
     = Some (NoNextButton, skipped_state, [])
 \<and> harvestLoop_v2 sample_libs class_selectors None None (initial_state 2) skipped_pages
     = Some (NoNextButton, skipped_state, [])
 \<and> scrapeSingleQuestionPage sample_libs class_selectors (snapshot (hd skipped_pages))
       (2 + 1) (1000 + 2) 1 = Some (sample_record 1002 1)
 \<and> allQuestionsData skipped_state = [sample_record 1002 1, sample_record 1004 2]
 \<and> map SL (allQuestionsData skipped_state)
     = map int [1..<Suc (length (allQuestionsData skipped_state))]
 \<and> noteId (hd (allQuestionsData skipped_state)) = 1000 + 2
 \<and> SL (hd (allQuestionsData skipped_state)) = 1
 \<and> main sample_libs class_selectors sample_cli sample_env = Some (0, sample_session)
 \<and> map SL [sample_record 1000 1, sample_record 1001 2, sample_record 1002 3]
     = map int [1..<Suc (length [sample_record 1000 1, sample_record 1001 2,
                                 sample_record 1002 3])]"
  using serial_numbers_from_one
    [of sample_libs class_selectors None None 2 skipped_pages NoNextButton skipped_state
      "[]" "sample_record 1002 1" skipped_state "sample_record 1002 1" sample_cli
      sample_env 0 sample_session "''Mock Test - Paper 1.json''"
      "[sample_record 1000 1, sample_record 1001 2, sample_record 1002 3]"]
    skipped_run skipped_run_v2 skipped_first_page skipped_first_page_v2 skipped_records
    sample_session_run sample_session_written
  by blast

lemma collect_length:
  "length (allQuestionsData (collect tag st c)) \<le> Suc (length (allQuestionsData st))"
  by (cases c) (simp_all add: collect_Some)

lemma harvestLoop_bound:
  "int (length (allQuestionsData st)) < N
     \<Longrightarrow> harvestLoop L s (Some N) tag st ps = Some (e, st', rest)
     \<Longrightarrow> int (length (allQuestionsData st')) \<le> N"
proof (induction ps arbitrary: st)
  case Nil
  then show ?case by simp
next
  case (Cons p ps)
  let ?st1 = "collect tag st (scrapeSingleQuestionPage L s (snapshot p)
                (questionCounter st) (noteIdCounter st) (serialNumberCounter st))"
  have le: "int (length (allQuestionsData ?st1)) \<le> N"
    using collect_length [of tag st] Cons.prems(1) by (smt (verit) of_nat_Suc of_nat_le_iff)
  show ?case
  proof (cases "limit_reached (Some N) ?st1 \<or> \<not> nextExists p \<or> reachedEnd p")
    case True
    with Cons.prems(2) le show ?thesis
      by (auto simp: Let_def advance_def split: if_splits)
  next
    case False
    then have lt: "int (length (allQuestionsData (advance ?st1))) < N"
      by (simp add: limit_reached_def advance_def)
    from False Cons.prems(2)
    have "harvestLoop L s (Some N) tag (advance ?st1) ps = Some (e, st', rest)"
      by (simp add: Let_def)
    from Cons.IH [OF lt this] show ?thesis .
  qed
qed

lemma harvestLoop_v2_bound:
  "int (length (allQuestionsData st)) < N
     \<Longrightarrow> harvestLoop_v2 L s (Some N) tag st ps = Some (e, st', rest)
     \<Longrightarrow> int (length (allQuestionsData st')) \<le> N"
proof (induction ps arbitrary: st)
  case Nil
  then show ?case by simp
next
  case (Cons p ps)
  let ?st1 = "collect tag st (scrapeSingleQuestionPage_v2 L s (snapshot p)
                (questionCounter st) (noteIdCounter st) (serialNumberCounter st))"
  have le: "int (length (allQuestionsData ?st1)) \<le> N"
    using collect_length [of tag st] Cons.prems(1) by (smt (verit) of_nat_Suc of_nat_le_iff)
  show ?case
  proof (cases "\<not> viewSolutionPresent p \<or> limit_reached (Some N) ?st1 \<or> \<not> nextExists p
                 \<or> reachedEnd p")
    case True
    with Cons.prems le show ?thesis
      by (auto simp: Let_def advance_def split: if_splits)
  next
    case False
    then have lt: "int (length (allQuestionsData (advance ?st1))) < N"
      by (simp add: limit_reached_def advance_def)
    from False Cons.prems(2)
    have "harvestLoop_v2 L s (Some N) tag (advance ?st1) ps = Some (e, st', rest)"
      by (simp add: Let_def)
    from Cons.IH [OF lt this] show ?thesis .
  qed
qed

lemma limit_zero_run:
  "harvestLoop sample_libs class_selectors (Some 0) None (initial_state 0) five_pages
     = Some (LimitReached,
         \<lparr>allQuestionsData = [sample_record 1000 1], questionCounter = 1,
          noteIdCounter = 1000, serialNumberCounter = 2\<rparr>,
         [sample_obs, sample_obs, sample_obs, sample_obs])"
  by code_simp

text \<open>
  Claim C6, as stated: with a finite limit N the collection never exceeds N records.
  This fails for a limit below 1: the limit is compared with the size of the collection
  only after a page has been harvested, so with \<open>--count 0\<close> the first page is
  harvested and one record is collected.
\<close>

theorem limit_never_exceeded_counterexample:
  "\<not> (\<forall>L s N tag skip seen e st rest.
        harvestLoop L s (Some N) tag (initial_state skip) seen = Some (e, st, rest) \<longrightarrow>
        int (length (allQuestionsData st)) \<le> N)"
proof
  assume "\<forall>L s N tag skip seen e st rest.
        harvestLoop L s (Some N) tag (initial_state skip) seen = Some (e, st, rest) \<longrightarrow>
        int (length (allQuestionsData st)) \<le> N"
  from this limit_zero_run
  have "int (length (allQuestionsData
          \<lparr>allQuestionsData = [sample_record 1000 1], questionCounter = 1,
           noteIdCounter = 1000, serialNumberCounter = 2\<rparr>)) \<le> 0"
    by blast
  then show False by simp
qed

lemma limit_one_first_page:
  "scrapeSingleQuestionPage sample_libs class_selectors (snapshot sample_obs) (0 + 1)
     (1000 + 0) 1 = Some (sample_record 1000 1)"
  by code_simp

text \<open>
  Claim C6, amended. A round of the harvesting loop, after it has harvested its page,
  makes its checks in a fixed order and stops at the first that holds: the size of the
  collection has reached the limit (the next button and the page text are not looked
  at); the next button is absent; after the click on it, the page text has the
  last-question message; otherwise the loop goes on with the next page. With a limit
  N of at least 1 the collection never exceeds N records. With the limit 1 and a
  first page that parses, the loop ends on that page with exactly one record and
  leaves every further page unread, so of five pages four. All this holds of the loop
  of either variant; in the second, a round whose click on the solution button fails
  ends the loop before any check.
\<close>

theorem harvest_checks_in_order:
  "(limit_reached limit
       (collect tag st (scrapeSingleQuestionPage L s (snapshot p)
          (questionCounter st) (noteIdCounter st) (serialNumberCounter st))) \<longrightarrow>
      harvestLoop L s limit tag st (p # ps)
        = Some (LimitReached,
            collect tag st (scrapeSingleQuestionPage L s (snapshot p)
              (questionCounter st) (noteIdCounter st) (serialNumberCounter st)), ps))
 \<and> (\<not> limit_reached limit
         (collect tag st (scrapeSingleQuestionPage L s (snapshot p)
            (questionCounter st) (noteIdCounter st) (serialNumberCounter st)))
      \<and> \<not> nextExists p \<longrightarrow>
      harvestLoop L s limit tag st (p # ps)
        = Some (NoNextButton,
            collect tag st (scrapeSingleQuestionPage L s (snapshot p)
              (questionCounter st) (noteIdCounter st) (serialNumberCounter st)), ps))
 \<and> (\<not> limit_reached limit
         (collect tag st (scrapeSingleQuestionPage L s (snapshot p)
            (questionCounter st) (noteIdCounter st) (serialNumberCounter st)))
      \<and> nextExists p \<and> reachedEnd p \<longrightarrow>
      harvestLoop L s limit tag st (p # ps)
        = Some (LastQuestionMessage,
            advance (collect tag st (scrapeSingleQuestionPage L s (snapshot p)
              (questionCounter st) (noteIdCounter st) (serialNumberCounter st))), ps))
 \<and> (\<not> limit_reached limit
         (collect tag st (scrapeSingleQuestionPage L s (snapshot p)
            (questionCounter st) (noteIdCounter st) (serialNumberCounter st)))
      \<and> nextExists p \<and> \<not> reachedEnd p \<longrightarrow>
      harvestLoop L s limit tag st (p # ps)
        = harvestLoop L s limit tag
            (advance (collect tag st (scrapeSingleQuestionPage L s (snapshot p)
              (questionCounter st) (noteIdCounter st) (serialNumberCounter st)))) ps)
 \<and> (1 \<le> N \<and> harvestLoop L s (Some N) tag (initial_state skip) seen = Some (e, st', rest)
      \<longrightarrow> int (length (allQuestionsData st')) \<le> N)
 \<and> (1 \<le> N \<and> harvestLoop_v2 L s (Some N) tag (initial_state skip) seen = Some (e, st', rest)
      \<longrightarrow> int (length (allQuestionsData st')) \<le> N)
 \<and> (scrapeSingleQuestionPage L s (snapshot p) (skip + 1) (1000 + skip) 1 = Some r \<longrightarrow>
      harvestLoop L s (Some 1) tag (initial_state skip) (p # ps)
        = Some (LimitReached,
            \<lparr>allQuestionsData = [with_common_tag tag r], questionCounter = skip + 1,
             noteIdCounter = 1000 + skip, serialNumberCounter = 2\<rparr>, ps))
 \<and> (\<not> viewSolutionPresent p \<longrightarrow>
      harvestLoop_v2 L s limit tag st (p # ps) = Some (ClickFailed, st, ps))
 \<and> (viewSolutionPresent p
      \<and> limit_reached limit
         (collect tag st (scrapeSingleQuestionPage_v2 L s (snapshot p)
            (questionCounter st) (noteIdCounter st) (serialNumberCounter st))) \<longrightarrow>
      harvestLoop_v2 L s limit tag st (p # ps)
        = Some (LimitReached,
         (collect tag st (scrapeSingleQuestionPage_v2 L s (snapshot p)
            (questionCounter st) (noteIdCounter st) (serialNumberCounter st))), ps))
 \<and> (viewSolutionPresent p
      \<and> \<not> limit_reached limit
         (collect tag st (scrapeSingleQuestionPage_v2 L s (snapshot p)
            (questionCounter st) (noteIdCounter st) (serialNumberCounter st)))
      \<and> \<not> nextExists p \<longrightarrow>
      harvestLoop_v2 L s limit tag st (p # ps)
        = Some (NoNextButton,
         (collect tag st (scrapeSingleQuestionPage_v2 L s (snapshot p)
            (questionCounter st) (noteIdCounter st) (serialNumberCounter st))), ps))
 \<and> (viewSolutionPresent p
      \<and> \<not> limit_reached limit
         (collect tag st (scrapeSingleQuestionPage_v2 L s (snapshot p)
            (questionCounter st) (noteIdCounter st) (serialNumberCounter st)))
      \<and> nextExists p \<and> reachedEnd p \<longrightarrow>
      harvestLoop_v2 L s limit tag st (p # ps)
        = Some (LastQuestionMessage, advance
         (collect tag st (scrapeSingleQuestionPage_v2 L s (snapshot p)
            (questionCounter st) (noteIdCounter st) (serialNumberCounter st))), ps))
 \<and> (viewSolutionPresent p
      \<and> \<not> limit_reached limit
         (collect tag st (scrapeSingleQuestionPage_v2 L s (snapshot p)
            (questionCounter st) (noteIdCounter st) (serialNumberCounter st)))
      \<and> nextExists p \<and> \<not> reachedEnd p \<longrightarrow>
      harvestLoop_v2 L s limit tag st (p # ps)
        = harvestLoop_v2 L s limit tag (advance
         (collect tag st (scrapeSingleQuestionPage_v2 L s (snapshot p)
            (questionCounter st) (noteIdCounter st) (serialNumberCounter st)))) ps)
 \<and> (viewSolutionPresent p
      \<and> scrapeSingleQuestionPage_v2 L s (snapshot p) (skip + 1) (1000 + skip) 1 = Some r
      \<longrightarrow>
      harvestLoop_v2 L s (Some 1) tag (initial_state skip) (p # ps)
        = Some (LimitReached,
            \<lparr>allQuestionsData = [with_common_tag tag r], questionCounter = skip + 1,
             noteIdCounter = 1000 + skip, serialNumberCounter = 2\<rparr>, ps))"
proof (intro conjI impI)
  assume "1 \<le> N \<and> harvestLoop L s (Some N) tag (initial_state skip) seen = Some (e, st', rest)"
  then have "int (length (allQuestionsData (initial_state skip))) < N"
    and "harvestLoop L s (Some N) tag (initial_state skip) seen = Some (e, st', rest)"
    by (simp_all add: initial_state_def)
  then show "int (length (allQuestionsData st')) \<le> N" by (rule harvestLoop_bound)
next
  assume "1 \<le> N \<and> harvestLoop_v2 L s (Some N) tag (initial_state skip) seen
            = Some (e, st', rest)"
  then have "int (length (allQuestionsData (initial_state skip))) < N"
    and "harvestLoop_v2 L s (Some N) tag (initial_state skip) seen = Some (e, st', rest)"
    by (simp_all add: initial_state_def)
  then show "int (length (allQuestionsData st')) \<le> N" by (rule harvestLoop_v2_bound)
next
  assume "scrapeSingleQuestionPage L s (snapshot p) (skip + 1) (1000 + skip) 1 = Some r"
  then show "harvestLoop L s (Some 1) tag (initial_state skip) (p # ps)
        = Some (LimitReached,
            \<lparr>allQuestionsData = [with_common_tag tag r], questionCounter = skip + 1,
             noteIdCounter = 1000 + skip, serialNumberCounter = 2\<rparr>, ps)"
    by (simp add: initial_state_def collect_Some limit_reached_def)
next
  assume "viewSolutionPresent p
      \<and> scrapeSingleQuestionPage_v2 L s (snapshot p) (skip + 1) (1000 + skip) 1 = Some r"
  then show "harvestLoop_v2 L s (Some 1) tag (initial_state skip) (p # ps)
        = Some (LimitReached,
            \<lparr>allQuestionsData = [with_common_tag tag r], questionCounter = skip + 1,
             noteIdCounter = 1000 + skip, serialNumberCounter = 2\<rparr>, ps)"
    by (simp add: initial_state_def collect_Some limit_reached_def)
qed (simp_all add: Let_def)

lemma limit_one_records:
  "allQuestionsData limit_one_state = [with_common_tag None (sample_record 1000 1)]"
  by (simp add: limit_one_state_def)

lemma limit_one_first_page_v2:
  "viewSolutionPresent sample_obs
   \<and> scrapeSingleQuestionPage_v2 sample_libs class_selectors (snapshot sample_obs) (0 + 1)
        (1000 + 0) 1 = Some (sample_record 1000 1)"
  by code_simp

theorem harvest_checks_in_order_witness:
  "scrapeSingleQuestionPage sample_libs class_selectors (snapshot sample_obs) (0 + 1)
     (1000 + 0) 1 = Some (sample_record 1000 1)
 \<and> harvestLoop sample_libs class_selectors (Some 1) None (initial_state 0)
       (sample_obs # [sample_obs, sample_obs, sample_obs, sample_obs])
     = Some (LimitReached, limit_one_state, [sample_obs, sample_obs, sample_obs, sample_obs])
 \<and> harvestLoop_v2 sample_libs class_selectors (Some 1) None (initial_state 0)
       (sample_obs # [sample_obs, sample_obs, sample_obs, sample_obs])
     = Some (LimitReached, limit_one_state, [sample_obs, sample_obs, sample_obs, sample_obs])
 \<and> allQuestionsData limit_one_state = [with_common_tag None (sample_record 1000 1)]
 \<and> int (length (allQuestionsData limit_one_state)) \<le> 1"
proof -
  have one: "(1::int) \<le> 1" by simp
  show ?thesis
    using harvest_checks_in_order
      [of "Some 1" None "initial_state 0" sample_libs class_selectors sample_obs
        "[sample_obs, sample_obs, sample_obs, sample_obs]" 1 0
        "sample_obs # [sample_obs, sample_obs, sample_obs, sample_obs]"
        LimitReached limit_one_state "[sample_obs, sample_obs, sample_obs, sample_obs]"
        "sample_record 1000 1"]
      limit_one_first_page limit_one_first_page_v2 limit_one_records one
    unfolding limit_one_state_def
    by blast
qed

section \<open>Properties of the session's cleanup\<close>

lemma finally_block_closes:
  "tabClient (finally_block ss) \<noteq> Opened
 \<and> browserClient (finally_block ss) \<noteq> Opened
 \<and> logger (finally_block ss) \<noteq> Opened"
  by (simp add: finally_block_def close_resource_def)

lemma main_completed:
  assumes "link opts \<noteq> None" and "link opts \<noteq> Some []"
    and "try_body L s opts env = Some (Completed, ss)"
  shows "main L s opts env = Some (0, finally_block ss)"
  using assms by (simp add: main_def)

lemma sample_session_closed:
  "tabClient sample_session = Closed \<and> browserClient sample_session = Closed
   \<and> logger sample_session = Closed"
  by (simp add: sample_session_def)

text \<open>
  Claim C2. Every way in which a session ends should close the tab connection, the
  browser connection and the log sink. The \<open>finally\<close> block of \<open>main\<close> does so when the
  body of the \<open>try\<close> block runs to its end. On the fatal paths it is never reached:
  the handler of the selector timeout and the \<open>catch\<close> block both call
  \<open>process.exit(1)\<close>, which ends the process before the \<open>finally\<close> block can run.
  Evaluated here: a session in which the wait for the solutions button times out, and
  a session in which all three navigation attempts fail, end with exit status 1 and
  both connections still open.
\<close>

theorem main_exits_with_open_connections:
  "main sample_libs class_selectors sample_cli
     (sample_env\<lparr>solutionsButtonWait := TimedOut\<rparr>)
     = Some (1, start_session\<lparr>browserClient := Opened, tabClient := Opened\<rparr>)
 \<and> main sample_libs class_selectors sample_cli
     (sample_env\<lparr>navigationOk := (\<lambda>i. False)\<rparr>)
     = Some (1, start_session\<lparr>browserClient := Opened, tabClient := Opened\<rparr>)"
  by code_simp

end
